theory Spec2Isabelle
  imports Main "HOL-Library.Sublist" "HOL-Library.Char_ord" "HOL-Library.List_Lexorder"
begin

section \<open>Tables as the dashboard sees them\<close>

text \<open>
  \<^verbatim>\<open>app.py\<close> works on pandas data frames. A frame is an ordered list of column
  names and a list of rows; a row gives a value to some of the columns, and a column a
  row says nothing about reads as NaN (this is what \<^verbatim>\<open>pd.concat\<close> leaves in the
  rows of a fragment that lacks a column of another fragment). A value is a number, a
  text or NaN. Numbers are whole numbers here: the data sets hold counts. How pandas
  stores a column of them depends on the column: see \<open>nansum\<close> below.
\<close>

datatype cell = Num int | Str string | NaN

text \<open>Telling the kinds of value apart, and reading a number or a text.\<close>

fun is_number :: "cell \<Rightarrow> bool" where
  "is_number (Num n) = True"
| "is_number v = False"

fun is_text :: "cell \<Rightarrow> bool" where
  "is_text (Str s) = True"
| "is_text v = False"

fun num_of :: "cell \<Rightarrow> int" where
  "num_of (Num n) = n"
| "num_of v = 0"

fun str_of :: "cell \<Rightarrow> string" where
  "str_of (Str s) = s"
| "str_of v = []"

record dataframe =
  columns :: "string list"
  rows :: "(string \<rightharpoonup> cell) list"

text \<open>\<^verbatim>\<open>pd.DataFrame()\<close>: no column and no row.\<close>

definition DataFrame :: dataframe where
  "DataFrame = \<lparr>columns = [], rows = []\<rparr>"

text \<open>\<^verbatim>\<open>df.empty\<close>: true when one of the two axes has length zero.\<close>

definition empty :: "dataframe \<Rightarrow> bool" where
  "empty df = (columns df = [] \<or> rows df = [])"

definition cell_at :: "(string \<rightharpoonup> cell) \<Rightarrow> string \<Rightarrow> cell" where
  "cell_at r c = (case r c of None \<Rightarrow> NaN | Some v \<Rightarrow> v)"

text \<open>\<^verbatim>\<open>df[c]\<close> read as the list of the column's values, one per row.\<close>

definition column_values :: "dataframe \<Rightarrow> string \<Rightarrow> cell list" where
  "column_values df c = map (\<lambda>r. cell_at r c) (rows df)"


text \<open>
  The Python exceptions the library calls of the two programs can raise, and what a view
  of the dashboard can end in other than a chart: the \<^verbatim>\<open>st.error\<close> notice of the
  view, or an exception nothing catches.
  \<^item> \<open>MissingRequiredColumns\<close>: "Required age columns not found in enrolment data." and
    "Required demographic age columns not found." (lines 109 and 137);
  \<^item> \<open>NoMatchingColumns\<close>: "No biometric age columns found." (line 165);
  \<^item> \<open>StateOrDistrictMissing\<close>: "State or district columns missing in biometric data."
    (line 191).
\<close>

datatype exn =
    KeyError
  | TypeError
  | ValueError string
  | InvalidIndexError
  | OSError string
  | ReadError string

datatype signal =
    MissingRequiredColumns
  | NoMatchingColumns
  | StateOrDistrictMissing
  | Raised exn

text \<open>
  \<^verbatim>\<open>df[cols]\<close> with a list of names: the frame of these columns in the order asked for;
  pandas raises KeyError when a name is not a column.
\<close>

definition getitem :: "dataframe \<Rightarrow> string list \<Rightarrow> exn + dataframe" where
  "getitem df cols =
     (if list_all (\<lambda>c. c \<in> set (columns df)) cols
      then Inr \<lparr>columns = cols, rows = map (\<lambda>r. r |` set cols) (rows df)\<rparr>
      else Inl KeyError)"

text \<open>
  \<^verbatim>\<open>.sum()\<close> of one column, as pandas 2 computes it (\<^verbatim>\<open>skipna=True\<close>,
  \<^verbatim>\<open>min_count=0\<close>). What is added depends on how the column is stored.
  \<^item> A column of whole numbers, each within the 64-bit signed range and none missing, is
    an int64 column: numpy adds in int64 and wraps around silently, so the total is the
    sum taken modulo \<open>2 ^ 64\<close> into the signed range.
  \<^item> A column of texts only is concatenated (Python's \<^verbatim>\<open>+\<close> on strings); a column
    that holds a text next to a number or a NaN raises TypeError, since pandas puts 0 in
    place of NaN and Python cannot add a text and a number.
  \<^item> Every other column without text (one that has a NaN, or a number outside the int64
    range) is not an int64 column; the usual case is float64. pandas puts 0 in place of
    each NaN and hands the values to numpy. What numpy's floating-point sum returns is
    numpy's business and a parameter here, \<open>np_sum\<close>.
\<close>

definition int64 :: "int \<Rightarrow> bool" where
  "int64 n = (- (2 ^ 63) \<le> n \<and> n < 2 ^ 63)"

definition wrap64 :: "int \<Rightarrow> int" where
  "wrap64 n = (n + 2 ^ 63) mod 2 ^ 64 - 2 ^ 63"

definition int64_column :: "cell list \<Rightarrow> bool" where
  "int64_column vs = list_all (\<lambda>v. is_number v \<and> int64 (num_of v)) vs"

fun fillna0 :: "cell \<Rightarrow> cell" where
  "fillna0 NaN = Num 0"
| "fillna0 v = v"

definition nansum :: "(cell list \<Rightarrow> cell) \<Rightarrow> cell list \<Rightarrow> exn + cell" where
  "nansum np_sum vs =
     (if int64_column vs then Inr (Num (wrap64 (sum_list (map num_of vs))))
      else if list_all is_text vs then Inr (Str (concat (map str_of vs)))
      else if list_ex is_text vs then Inl TypeError
      else Inr (np_sum (map fillna0 vs)))"

text \<open>
  \<^verbatim>\<open>df.sum().reset_index()\<close>: one (label, total) entry per column of the frame, in
  the frame's column order; an exception in one column is the exception of the call.
\<close>

fun sum_columns ::
  "(cell list \<Rightarrow> cell) \<Rightarrow> dataframe \<Rightarrow> string list \<Rightarrow> exn + (string \<times> cell) list" where
  "sum_columns np_sum df [] = Inr []"
| "sum_columns np_sum df (c # cs) =
     (case nansum np_sum (column_values df c) of
        Inl e \<Rightarrow> Inl e
      | Inr t \<Rightarrow>
          (case sum_columns np_sum df cs of
             Inl e \<Rightarrow> Inl e
           | Inr ts \<Rightarrow> Inr ((c, t) # ts)))"

definition sum_reset_index ::
  "(cell list \<Rightarrow> cell) \<Rightarrow> dataframe \<Rightarrow> exn + (string \<times> cell) list" where
  "sum_reset_index np_sum df = sum_columns np_sum df (columns df)"

section \<open>Fixed-column sums: the age-wise enrolment and demographic views\<close>

text \<open>
  Lines 106 to 112 and 134 to 140 of \<^verbatim>\<open>app.py\<close> are the same code on two column
  lists:
  \<^verbatim>\<open>
  if enrol_df.empty or not all(c in enrol_df.columns for c in age_cols):
      st.error("Required age columns not found in enrolment data.")
  else:
      age_summary = enrol_df[age_cols].sum().reset_index()
  \<close>
  \<open>sumColumns\<close> is that code with the column list as its argument.
\<close>

definition sumColumns ::
  "(cell list \<Rightarrow> cell) \<Rightarrow> dataframe \<Rightarrow> string list \<Rightarrow> signal + (string \<times> cell) list" where
  "sumColumns np_sum df cols =
     (if empty df \<or> \<not> list_all (\<lambda>c. c \<in> set (columns df)) cols
      then Inl MissingRequiredColumns
      else (case getitem df cols of
              Inl e \<Rightarrow> Inl (Raised e)
            | Inr sel \<Rightarrow>
                (case sum_reset_index np_sum sel of
                   Inl e \<Rightarrow> Inl (Raised e)
                 | Inr summary \<Rightarrow> Inr summary)))"

definition age_cols :: "string list" where
  "age_cols = [''age_0_5'', ''age_5_17'', ''age_18_greater'']"

definition demo_cols :: "string list" where
  "demo_cols = [''demo_age_5_17'', ''demo_age_17_'']"

definition age_wise_enrolment ::
  "(cell list \<Rightarrow> cell) \<Rightarrow> dataframe \<Rightarrow> signal + (string \<times> cell) list" where
  "age_wise_enrolment np_sum enrol_df = sumColumns np_sum enrol_df age_cols"

definition demographic_updates ::
  "(cell list \<Rightarrow> cell) \<Rightarrow> dataframe \<Rightarrow> signal + (string \<times> cell) list" where
  "demographic_updates np_sum demo_df = sumColumns np_sum demo_df demo_cols"

section \<open>Predicate-matched sums: the biometric lifecycle view\<close>

text \<open>
  \<^verbatim>\<open>c.lower()\<close> on the letters A to Z; every other character stays (strings are
  ASCII here).
\<close>

definition lower_char :: "char \<Rightarrow> char" where
  "lower_char c =
     (case map_of (zip ''ABCDEFGHIJKLMNOPQRSTUVWXYZ'' ''abcdefghijklmnopqrstuvwxyz'') c of
        None \<Rightarrow> c
      | Some l \<Rightarrow> l)"

definition lower :: "string \<Rightarrow> string" where
  "lower s = map lower_char s"

text \<open>
  Lines 162 to 167:
  \<^verbatim>\<open>
  bio_age_cols = [c for c in bio_df.columns if "age" in c.lower()]
  if bio_df.empty or not bio_age_cols:
      st.error("No biometric age columns found.")
  else:
      bio_summary = bio_df[bio_age_cols].sum().reset_index()
  \<close>
  Python's \<^verbatim>\<open>x in s\<close> on strings is \<open>sublist x s\<close>.
\<close>

definition bio_age_cols :: "dataframe \<Rightarrow> string list" where
  "bio_age_cols bio_df = filter (\<lambda>c. sublist ''age'' (lower c)) (columns bio_df)"

definition sumMatchingColumns ::
  "(cell list \<Rightarrow> cell) \<Rightarrow> dataframe \<Rightarrow> signal + (string \<times> cell) list" where
  "sumMatchingColumns np_sum bio_df =
     (if empty bio_df \<or> bio_age_cols bio_df = []
      then Inl NoMatchingColumns
      else (case getitem bio_df (bio_age_cols bio_df) of
              Inl e \<Rightarrow> Inl (Raised e)
            | Inr sel \<Rightarrow>
                (case sum_reset_index np_sum sel of
                   Inl e \<Rightarrow> Inl (Raised e)
                 | Inr summary \<Rightarrow> Inr summary)))"

text \<open>
  The spec's wording of the match, for comparison with the code's, and written without
  \<open>lower\<close>: two characters are the same letter up to case when they are equal, or one
  is a capital (code 65 to 90) and the other the character 32 codes above it; a name
  contains a text case-insensitively when some contiguous part of the name is the text,
  character by character, up to case.
\<close>

definition same_letter :: "char \<Rightarrow> char \<Rightarrow> bool" where
  "same_letter a b =
     (a = b \<or>
      (65 \<le> (of_char a :: nat) \<and> (of_char a :: nat) \<le> 90 \<and>
         (of_char b :: nat) = of_char a + 32) \<or>
      (65 \<le> (of_char b :: nat) \<and> (of_char b :: nat) \<le> 90 \<and>
         (of_char a :: nat) = of_char b + 32))"

definition contains_ignoring_case :: "string \<Rightarrow> string \<Rightarrow> bool" where
  "contains_ignoring_case name x =
     (\<exists>before part after. name = before @ part @ after \<and> list_all2 same_letter part x)"

section \<open>Grouped counts: the regional insights view\<close>

text \<open>
  Lines 190 to 201:
  \<^verbatim>\<open>
  if bio_df.empty or "state" not in bio_df.columns or "district" not in bio_df.columns:
      st.error("State or district columns missing in biometric data.")
  else:
      states = sorted(bio_df["state"].dropna().unique())
      selected_state = st.selectbox("Select State", states)
      state_df = bio_df[bio_df["state"] == selected_state]
      district_summary = (
          state_df.groupby("district").size().reset_index(name="Update Records"))
  \<close>
\<close>

text \<open>\<^verbatim>\<open>.dropna().unique()\<close>: the values that are not NaN, each once, in order of first
  appearance.\<close>

fun unique :: "cell list \<Rightarrow> cell list \<Rightarrow> cell list" where
  "unique seen [] = seen"
| "unique seen (v # vs) = unique (if v \<in> set seen then seen else seen @ [v]) vs"

definition dropna_unique :: "cell list \<Rightarrow> cell list" where
  "dropna_unique vs = unique [] (filter (\<lambda>v. v \<noteq> NaN) vs)"

text \<open>
  Python's \<^verbatim>\<open>sorted\<close> on values without NaN: numbers by value, texts by code point;
  comparing a number with a text raises TypeError.
\<close>

definition sorted_cells :: "cell list \<Rightarrow> exn + cell list" where
  "sorted_cells vs =
     (if list_all is_number vs then Inr (map Num (sort (map num_of vs)))
      else if list_all is_text vs then Inr (map Str (sort (map str_of vs)))
      else Inl TypeError)"

text \<open>
  \<^verbatim>\<open>series == selected_state\<close> for one value: NaN equals nothing, and nothing equals
  \<^verbatim>\<open>None\<close>, which is what the select box returns when it has no option.
\<close>

definition eq_selected :: "cell \<Rightarrow> cell option \<Rightarrow> bool" where
  "eq_selected v selected_state =
     (case selected_state of
        None \<Rightarrow> False
      | Some s \<Rightarrow> v \<noteq> NaN \<and> s \<noteq> NaN \<and> v = s)"

text \<open>\<^verbatim>\<open>df[mask]\<close> with the mask \<^verbatim>\<open>df[c] == selected_state\<close>.\<close>

definition filter_eq :: "dataframe \<Rightarrow> string \<Rightarrow> cell option \<Rightarrow> dataframe" where
  "filter_eq df c selected_state =
     df\<lparr>rows := filter (\<lambda>r. eq_selected (cell_at r c) selected_state) (rows df)\<rparr>"

text \<open>
  \<^verbatim>\<open>df.groupby(c).size().reset_index(...)\<close>: one entry per value of the column that
  is not NaN, with the number of rows holding it; rows whose key is NaN are dropped.
  The keys are sorted, numbers before texts (what pandas does with keys of both kinds).
\<close>

definition group_keys :: "cell list \<Rightarrow> cell list" where
  "group_keys vs =
     (let ks = dropna_unique vs
      in map Num (sort (map num_of (filter is_number ks))) @
         map Str (sort (map str_of (filter is_text ks))))"

definition groupby_size :: "dataframe \<Rightarrow> string \<Rightarrow> (cell \<times> nat) list" where
  "groupby_size df c =
     (let vs = column_values df c
      in map (\<lambda>k. (k, count_list vs k)) (group_keys vs))"

text \<open>Line 193, the options of the select box.\<close>

definition states :: "dataframe \<Rightarrow> exn + cell list" where
  "states bio_df = sorted_cells (dropna_unique (column_values bio_df ''state''))"

text \<open>
  The view. \<open>selectbox\<close> stands for the user: given the options it returns the chosen
  one, or \<^verbatim>\<open>None\<close>.
\<close>

definition countByGroup ::
  "(cell list \<Rightarrow> cell option) \<Rightarrow> dataframe \<Rightarrow> signal + (cell \<times> nat) list" where
  "countByGroup selectbox bio_df =
     (if empty bio_df \<or> ''state'' \<notin> set (columns bio_df) \<or> ''district'' \<notin> set (columns bio_df)
      then Inl StateOrDistrictMissing
      else (case states bio_df of
              Inl e \<Rightarrow> Inl (Raised e)
            | Inr options \<Rightarrow>
                (let selected_state = selectbox options;
                     state_df = filter_eq bio_df ''state'' selected_state
                 in Inr (groupby_size state_df ''district''))))"

section \<open>Files and folders\<close>

text \<open>
  Both programs find their files with \<^verbatim>\<open>glob\<close> and read them with pandas. A file
  system is a list of entries, a directory or a file with its bytes under each path, in
  the order the operating system lists them; a well-formed one names a path once. The
  keys are relative paths written plainly, as the two programs write theirs: names
  joined by single slashes.
\<close>

type_synonym path = string

datatype node = Dir | File string

type_synonym filesystem = "(path \<times> node) list"

text \<open>\<^verbatim>\<open>os.path.join(a, b)\<close> for a relative \<open>b\<close>.\<close>

definition path_join :: "path \<Rightarrow> string \<Rightarrow> path" where
  "path_join a b =
     (if a = [] then b
      else if last a = CHR ''/'' then a @ b
      else a @ ''/'' @ b)"

definition child_name :: "path \<Rightarrow> path \<Rightarrow> string option" where
  "child_name d p =
     (let pre = path_join d []; n = drop (length pre) p
      in if prefix pre p \<and> n \<noteq> [] \<and> CHR ''/'' \<notin> set n then Some n else None)"

text \<open>
  A path is plain when it is made of names joined by single slashes: no empty name (so no
  leading, trailing or doubled slash, and not the empty path), no \<^verbatim>\<open>.\<close> or
  \<^verbatim>\<open>..\<close>, and none of the characters \<^verbatim>\<open>*\<close>, \<^verbatim>\<open>?\<close> and \<^verbatim>\<open>[\<close> that
  \<^verbatim>\<open>glob\<close> reads as wildcards.
\<close>

fun components :: "string \<Rightarrow> string \<Rightarrow> string list" where
  "components name [] = [name]"
| "components name (c # cs) =
     (if c = CHR ''/'' then name # components [] cs else components (name @ [c]) cs)"

definition plain :: "path \<Rightarrow> bool" where
  "plain p =
     list_all (\<lambda>n. n \<noteq> [] \<and> n \<noteq> ''.'' \<and> n \<noteq> ''..'' \<and>
                   list_all (\<lambda>c. c \<notin> set ''*?['') n)
       (components [] p)"

text \<open>The names directly in the directory with a plain path; \<open>None\<close> when the path is
  not a directory.\<close>

definition listdir :: "filesystem \<Rightarrow> path \<Rightarrow> string list option" where
  "listdir fs d =
     (if map_of fs d = Some Dir
      then Some (List.map_filter (child_name d) (map fst fs))
      else None)"

text \<open>
  \<^verbatim>\<open>glob.glob(os.path.join(folder, "*" + ext))\<close> for a plain folder path: the entries
  directly in the folder whose name ends in \<open>ext\<close> and does not start with a dot, as
  paths; nothing when the folder cannot be listed. The match is on the name as written
  (POSIX).
\<close>

definition glob_star :: "filesystem \<Rightarrow> path \<Rightarrow> string \<Rightarrow> path list" where
  "glob_star fs folder ext =
     (case listdir fs folder of
        None \<Rightarrow> []
      | Some names \<Rightarrow>
          map (path_join folder) (filter (\<lambda>n. suffix ext n \<and> \<not> prefix ''.'' n) names))"

text \<open>
  \<^verbatim>\<open>glob.glob(os.path.join(folder, "*" + ext))\<close> for any folder path. A path that
  holds a NUL character makes the operating system calls raise
  \<^verbatim>\<open>ValueError: embedded null byte\<close>. A plain path is listed as above. For every
  other path (one with \<^verbatim>\<open>.\<close>, \<^verbatim>\<open>..\<close>, doubled or trailing slashes, an
  absolute one, the empty one, one with wildcards) what is found is the operating system's
  and the glob module's business and a parameter here, \<open>os_glob\<close>.
\<close>

type_synonym os_glob = "filesystem \<Rightarrow> path \<Rightarrow> string \<Rightarrow> path list"

definition glob :: "os_glob \<Rightarrow> filesystem \<Rightarrow> path \<Rightarrow> string \<Rightarrow> exn + path list" where
  "glob os_glob fs folder ext =
     (if CHR 0x00 \<in> set folder then Inl (ValueError ''embedded null byte'')
      else if plain folder then Inr (glob_star fs folder ext)
      else Inr (os_glob fs folder ext))"

text \<open>
  Reading a path with a pandas reader. What the reader makes of a file's bytes is pandas'
  business and a parameter here: \<open>parse bytes\<close> is the frame, or \<open>Inl\<close> the message of
  the exception it raises.
\<close>

type_synonym reader = "string \<Rightarrow> string + dataframe"

definition read_file :: "reader \<Rightarrow> filesystem \<Rightarrow> path \<Rightarrow> string + dataframe" where
  "read_file parse fs f =
     (case map_of fs f of
        None \<Rightarrow> Inl (''[Errno 2] No such file or directory: '' @ f)
      | Some Dir \<Rightarrow> Inl (''[Errno 21] Is a directory: '' @ f)
      | Some (File bytes) \<Rightarrow> parse bytes)"

section \<open>The loader\<close>

text \<open>
  \<^verbatim>\<open>pd.concat(dfs, ignore_index=True)\<close>: the rows of the fragments one after the other;
  the columns are the union of the fragments' columns in order of first appearance.
  pandas raises ValueError for an empty list, and InvalidIndexError when the fragments'
  columns differ and a fragment has a column name twice. (\<^verbatim>\<open>read_csv\<close> renames
  repeated names, so its frames have every name once.)
\<close>

fun union_columns :: "string list \<Rightarrow> string list \<Rightarrow> string list" where
  "union_columns acc [] = acc"
| "union_columns acc (c # cs) = union_columns (if c \<in> set acc then acc else acc @ [c]) cs"

definition own_rows :: "dataframe \<Rightarrow> (string \<rightharpoonup> cell) list" where
  "own_rows df = map (\<lambda>r. r |` set (columns df)) (rows df)"

definition pd_concat :: "dataframe list \<Rightarrow> exn + dataframe" where
  "pd_concat dfs =
     (case dfs of
        [] \<Rightarrow> Inl (ValueError ''No objects to concatenate'')
      | df # others \<Rightarrow>
          if list_all (\<lambda>d. columns d = columns df) others
          then Inr \<lparr>columns = columns df, rows = concat (map own_rows dfs)\<rparr>
          else if list_all (\<lambda>d. distinct (columns d)) dfs
          then Inr \<lparr>columns = foldl union_columns [] (map columns dfs),
                    rows = concat (map own_rows dfs)\<rparr>
          else Inl InvalidIndexError)"

text \<open>
  Lines 43 to 55:
  \<^verbatim>\<open>
  def load_folder_csvs(folder_path):
      files = glob.glob(os.path.join(folder_path, "*.csv"))
      if not files:
          return pd.DataFrame()
      dfs = []
      for f in files:
          try:
              dfs.append(pd.read_csv(f, low_memory=False))
          except Exception as e:
              st.warning(f"Failed to load {f}: {e}")
      return pd.concat(dfs, ignore_index=True) if dfs else pd.DataFrame()
  \<close>
  The result is the frame, or the exception that ended the call, together with the
  warnings shown until then, in order. The two calls outside the \<^verbatim>\<open>try\<close>,
  \<^verbatim>\<open>glob.glob\<close> and \<^verbatim>\<open>pd.concat\<close>, are the ones whose exception ends the call.
\<close>

definition warning_text :: "path \<Rightarrow> string \<Rightarrow> string" where
  "warning_text f e = ''Failed to load '' @ f @ '': '' @ e"

fun load_loop ::
  "reader \<Rightarrow> filesystem \<Rightarrow> path list \<Rightarrow> dataframe list \<Rightarrow> string list
     \<Rightarrow> dataframe list \<times> string list" where
  "load_loop read_csv fs [] dfs warnings = (dfs, warnings)"
| "load_loop read_csv fs (f # files) dfs warnings =
     (case read_file read_csv fs f of
        Inr df \<Rightarrow> load_loop read_csv fs files (dfs @ [df]) warnings
      | Inl e \<Rightarrow> load_loop read_csv fs files dfs (warnings @ [warning_text f e]))"

definition load_folder_csvs ::
  "os_glob \<Rightarrow> reader \<Rightarrow> filesystem \<Rightarrow> path \<Rightarrow> (exn + dataframe) \<times> string list" where
  "load_folder_csvs os_glob read_csv fs folder_path =
     (case glob os_glob fs folder_path ''.csv'' of
        Inl e \<Rightarrow> (Inl e, [])
      | Inr files \<Rightarrow>
          if files = [] then (Inr DataFrame, [])
          else (case load_loop read_csv fs files [] [] of
                  (dfs, warnings) \<Rightarrow>
                    (if dfs \<noteq> [] then pd_concat dfs else Inr DataFrame, warnings)))"

text \<open>The files a call looks at: what \<^verbatim>\<open>glob\<close> found, and none when it raised.\<close>

definition files_found :: "os_glob \<Rightarrow> filesystem \<Rightarrow> path \<Rightarrow> path list" where
  "files_found os_glob fs folder_path =
     (case glob os_glob fs folder_path ''.csv'' of Inl e \<Rightarrow> [] | Inr files \<Rightarrow> files)"

text \<open>
  What is assumed of \<^verbatim>\<open>pd.read_csv\<close> where a statement needs \<^verbatim>\<open>pd.concat\<close> not
  to raise: the frames it returns have every column name once.
\<close>

definition unique_names :: "reader \<Rightarrow> bool" where
  "unique_names read_csv = (\<forall>bytes df. read_csv bytes = Inr df \<longrightarrow> distinct (columns df))"

text \<open>
  \<^verbatim>\<open>@st.cache_data\<close> (line 42) keeps the value of each call that returns under its
  argument for as long as the process lives: a call with an argument stored before
  returns the stored value (and shows the warnings recorded with it) and does not run the
  body. A call that raises stores nothing. The application state is the stored values and
  the number of reads of the disk so far, one per listing of a folder and one per file
  read.
\<close>

record app_state =
  cache :: "(path \<times> (dataframe \<times> string list)) list"
  disk_reads :: nat

definition reads_of :: "os_glob \<Rightarrow> filesystem \<Rightarrow> path \<Rightarrow> nat" where
  "reads_of os_glob fs folder_path =
     (case glob os_glob fs folder_path ''.csv'' of
        Inl e \<Rightarrow> 0
      | Inr files \<Rightarrow> 1 + length files)"

definition cached_load_folder_csvs ::
  "os_glob \<Rightarrow> reader \<Rightarrow> filesystem \<Rightarrow> app_state \<Rightarrow> path
     \<Rightarrow> ((exn + dataframe) \<times> string list) \<times> app_state" where
  "cached_load_folder_csvs os_glob read_csv fs st folder_path =
     (case map_of (cache st) folder_path of
        Some (df, warnings) \<Rightarrow> ((Inr df, warnings), st)
      | None \<Rightarrow>
          (case load_folder_csvs os_glob read_csv fs folder_path of
             (Inl e, warnings) \<Rightarrow>
               ((Inl e, warnings),
                st\<lparr>disk_reads := disk_reads st + reads_of os_glob fs folder_path\<rparr>)
           | (Inr df, warnings) \<Rightarrow>
               ((Inr df, warnings),
                st\<lparr>cache := (folder_path, (df, warnings)) # cache st,
                   disk_reads := disk_reads st + reads_of os_glob fs folder_path\<rparr>)))"

text \<open>Any number of further calls, each on the disk as it is at that moment.\<close>

fun calls :: "os_glob \<Rightarrow> reader \<Rightarrow> (filesystem \<times> path) list \<Rightarrow> app_state \<Rightarrow> app_state" where
  "calls os_glob read_csv [] st = st"
| "calls os_glob read_csv ((fs, p) # later) st =
     calls os_glob read_csv later (snd (cached_load_folder_csvs os_glob read_csv fs st p))"

section \<open>The converter\<close>

text \<open>
  \<^verbatim>\<open>converter.py\<close> is a script: it makes the output folders, reads every spreadsheet
  of the three input folders and writes it as a CSV file. An exception is caught nowhere,
  so the first one ends the run; the run's result is then the exception with the state
  it left behind.
\<close>

definition INPUT_ROOT :: path where
  "INPUT_ROOT = []"

definition OUTPUT_ROOT :: path where
  "OUTPUT_ROOT = ''data_csv_converted''"

definition folders :: "string list" where
  "folders =
     [''api_data_aadhar_enrolment'', ''api_data_aadhar_demographic'',
      ''api_data_aadhar_biometric'']"

text \<open>\<^verbatim>\<open>os.path.isfile\<close>.\<close>

definition isfile :: "filesystem \<Rightarrow> path \<Rightarrow> bool" where
  "isfile fs p = (case map_of fs p of Some (File bytes) \<Rightarrow> True | _ \<Rightarrow> False)"

text \<open>
  \<^verbatim>\<open>os.makedirs(p, exist_ok=True)\<close>: every directory on the way down to \<open>p\<close> that does
  not exist yet is created; a directory that exists is left alone; a file in the way
  raises (FileExistsError or NotADirectoryError, both OSError).
\<close>

fun dir_prefixes :: "path \<Rightarrow> string \<Rightarrow> path list" where
  "dir_prefixes seen [] = (if seen = [] then [] else [seen])"
| "dir_prefixes seen (c # cs) =
     (if c = CHR ''/'' \<and> seen \<noteq> [] then seen # dir_prefixes (seen @ [c]) cs
      else dir_prefixes (seen @ [c]) cs)"

fun mkdirs :: "filesystem \<Rightarrow> path list \<Rightarrow> (exn \<times> filesystem) + filesystem" where
  "mkdirs fs [] = Inr fs"
| "mkdirs fs (q # qs) =
     (case map_of fs q of
        Some Dir \<Rightarrow> mkdirs fs qs
      | Some (File bytes) \<Rightarrow> Inl (OSError (''[Errno 17] File exists: '' @ q), fs)
      | None \<Rightarrow> mkdirs (fs @ [(q, Dir)]) qs)"

definition makedirs :: "filesystem \<Rightarrow> path \<Rightarrow> (exn \<times> filesystem) + filesystem" where
  "makedirs fs p = mkdirs fs (dir_prefixes [] p)"

text \<open>\<^verbatim>\<open>os.path.basename\<close>, \<^verbatim>\<open>os.path.dirname\<close> and the first half of
  \<^verbatim>\<open>os.path.splitext\<close> (the name up to its last dot; dots that lead the name do not
  count).\<close>

definition basename :: "path \<Rightarrow> string" where
  "basename p = rev (takeWhile (\<lambda>c. c \<noteq> CHR ''/'') (rev p))"

definition dirname :: "path \<Rightarrow> path" where
  "dirname p = rev (drop 1 (dropWhile (\<lambda>c. c \<noteq> CHR ''/'') (rev p)))"

definition splitext_root :: "string \<Rightarrow> string" where
  "splitext_root n =
     (let stem = rev (drop 1 (dropWhile (\<lambda>c. c \<noteq> CHR ''.'') (rev n)))
      in if CHR ''.'' \<notin> set n \<or> list_all (\<lambda>c. c = CHR ''.'') stem then n else stem)"

text \<open>
  \<^verbatim>\<open>df.to_csv(csv_file, index=False)\<close>: the file is created or overwritten; opening it
  fails when the path is a directory or its folder does not exist. The bytes pandas
  writes for a frame are a parameter, like the readers.
\<close>

fun put :: "path \<Rightarrow> node \<Rightarrow> filesystem \<Rightarrow> filesystem" where
  "put p n [] = [(p, n)]"
| "put p n ((q, m) # fs) = (if q = p then (p, n) # fs else (q, m) # put p n fs)"

definition write_file :: "filesystem \<Rightarrow> path \<Rightarrow> string \<Rightarrow> exn + filesystem" where
  "write_file fs p bytes =
     (if map_of fs p = Some Dir then Inl (OSError (''[Errno 21] Is a directory: '' @ p))
      else if dirname p \<noteq> [] \<and> map_of fs (dirname p) \<noteq> Some Dir
      then Inl (OSError (''[Errno 2] No such file or directory: '' @ p))
      else Inr (put p (File bytes) fs))"

record conv_state =
  files :: filesystem
  stdout :: "string list"

text \<open>
  Lines 23 to 28, the loop over the spreadsheets found in one folder:
  \<^verbatim>\<open>
  for file in excel_files:
      df = pd.read_excel(file)
      name = os.path.splitext(os.path.basename(file))[0]
      csv_file = os.path.join(output_path, f"{name}.csv")
      df.to_csv(csv_file, index=False)
      print(f"Converted: {file}")
  \<close>
\<close>

fun convert_files ::
  "reader \<Rightarrow> (dataframe \<Rightarrow> string) \<Rightarrow> path \<Rightarrow> path list \<Rightarrow> conv_state
     \<Rightarrow> (exn \<times> conv_state) + conv_state" where
  "convert_files read_excel to_csv output_path [] st = Inr st"
| "convert_files read_excel to_csv output_path (file # excel_files) st =
     (case read_file read_excel (files st) file of
        Inl e \<Rightarrow> Inl (ReadError e, st)
      | Inr df \<Rightarrow>
          (let name = splitext_root (basename file);
               csv_file = path_join output_path (name @ ''.csv'')
           in case write_file (files st) csv_file (to_csv df) of
                Inl e \<Rightarrow> Inl (e, st)
              | Inr fs' \<Rightarrow>
                  convert_files read_excel to_csv output_path excel_files
                    (st\<lparr>files := fs', stdout := stdout st @ [''Converted: '' @ file]\<rparr>)))"

text \<open>
  Lines 16 to 21, the loop over the folders:
  \<^verbatim>\<open>
  for folder in folders:
      input_path = os.path.join(INPUT_ROOT, folder)
      output_path = os.path.join(OUTPUT_ROOT, folder)
      os.makedirs(output_path, exist_ok=True)
      excel_files = glob.glob(os.path.join(input_path, "*.xlsx"))
  \<close>
\<close>

fun convert_folders ::
  "os_glob \<Rightarrow> reader \<Rightarrow> (dataframe \<Rightarrow> string) \<Rightarrow> string list \<Rightarrow> conv_state
     \<Rightarrow> (exn \<times> conv_state) + conv_state" where
  "convert_folders os_glob read_excel to_csv [] st = Inr st"
| "convert_folders os_glob read_excel to_csv (folder # later) st =
     (let input_path = path_join INPUT_ROOT folder;
          output_path = path_join OUTPUT_ROOT folder
      in case makedirs (files st) output_path of
           Inl (e, fs') \<Rightarrow> Inl (e, st\<lparr>files := fs'\<rparr>)
         | Inr fs' \<Rightarrow>
             (case glob os_glob fs' input_path ''.xlsx'' of
                Inl e \<Rightarrow> Inl (e, st\<lparr>files := fs'\<rparr>)
              | Inr excel_files \<Rightarrow>
                  (case convert_files read_excel to_csv output_path excel_files
                          (st\<lparr>files := fs'\<rparr>) of
                     Inl failure \<Rightarrow> Inl failure
                   | Inr st' \<Rightarrow> convert_folders os_glob read_excel to_csv later st')))"

text \<open>The script: line 8, the loop, and the last line printed (its check mark left
  out).\<close>

definition converter ::
  "os_glob \<Rightarrow> reader \<Rightarrow> (dataframe \<Rightarrow> string) \<Rightarrow> filesystem
     \<Rightarrow> (exn \<times> conv_state) + conv_state" where
  "converter os_glob read_excel to_csv fs =
     (case makedirs fs OUTPUT_ROOT of
        Inl (e, fs') \<Rightarrow> Inl (e, \<lparr>files = fs', stdout = []\<rparr>)
      | Inr fs' \<Rightarrow>
          (case convert_folders os_glob read_excel to_csv folders \<lparr>files = fs', stdout = []\<rparr> of
             Inl failure \<Rightarrow> Inl failure
           | Inr st \<Rightarrow> Inr (st\<lparr>stdout := stdout st @ [''All Excel files converted to CSV'']\<rparr>)))"


text \<open>
  For the statement about a folder with nothing to convert: the folder cannot be listed, or
  no name in it ends in the extension. This is the claim's wording, not the script's; the
  script asks \<open>glob\<close>.
\<close>

definition no_entry_ending :: "filesystem \<Rightarrow> path \<Rightarrow> string \<Rightarrow> bool" where
  "no_entry_ending fs d ext =
     (case listdir fs d of
        None \<Rightarrow> True
      | Some names \<Rightarrow> list_all (\<lambda>n. \<not> suffix ext n) names)"

section \<open>Example tables\<close>


text \<open>The table of the spec's example for the matched sums: age_x = [1, 1],
  age_y = [2, 2] and a column of names; and a table whose column names mix capitals and
  small letters.\<close>

definition table_age :: dataframe where
  "table_age =
     \<lparr>columns = [''age_x'', ''age_y'', ''name''],
      rows = [[''age_x'' \<mapsto> Num 1, ''age_y'' \<mapsto> Num 2, ''name'' \<mapsto> Str ''p''],
              [''age_x'' \<mapsto> Num 1, ''age_y'' \<mapsto> Num 2, ''name'' \<mapsto> Str ''q'']]\<rparr>"

definition table_capitals :: dataframe where
  "table_capitals =
     \<lparr>columns = [''Bio_AGE_5_17'', ''State'', ''aGe'', ''a_g_e'', ''Agent_1'', ''!GE''],
      rows = [[''Bio_AGE_5_17'' \<mapsto> Num 7, ''State'' \<mapsto> Str ''X'', ''aGe'' \<mapsto> Num 1,
               ''a_g_e'' \<mapsto> Num 1, ''Agent_1'' \<mapsto> Num 2, ''!GE'' \<mapsto> Num 1]]\<rparr>"

text \<open>A table of regions: four rows of state X (districts B, A, A and one without
  district), one row of state Y and one row without state.\<close>

definition table_regions :: dataframe where
  "table_regions =
     \<lparr>columns = [''state'', ''district''],
      rows = [[''state'' \<mapsto> Str ''X'', ''district'' \<mapsto> Str ''B''],
              [''state'' \<mapsto> Str ''Y'', ''district'' \<mapsto> Str ''C''],
              [''state'' \<mapsto> Str ''X'', ''district'' \<mapsto> Str ''A''],
              [''district'' \<mapsto> Str ''A''],
              [''state'' \<mapsto> Str ''X'', ''district'' \<mapsto> Str ''A''],
              [''state'' \<mapsto> Str ''X'']]\<rparr>"

text \<open>
  A disk: the folder data/enrol holds two CSV files pandas can parse (of 2 rows and 1
  row), an empty CSV file pandas refuses, a text file and a subfolder with a CSV file of
  its own; the folder data/broken holds only a file pandas refuses. The reader stands for
  \<^verbatim>\<open>pd.read_csv\<close> on these bytes.
\<close>

definition disk_example :: filesystem where
  "disk_example =
     [(''data'', Dir),
      (''data/enrol'', Dir),
      (''data/enrol/a.csv'', File ''A''),
      (''data/enrol/bad.csv'', File []),
      (''data/enrol/b.csv'', File ''B''),
      (''data/enrol/notes.txt'', File ''A''),
      (''data/enrol/old'', Dir),
      (''data/enrol/old/c.csv'', File ''A''),
      (''data/broken'', Dir),
      (''data/broken/bad.csv'', File [])]"

definition reader_example :: reader where
  "reader_example bytes =
     (if bytes = ''A''
      then Inr \<lparr>columns = [''state''],
                rows = [[''state'' \<mapsto> Str ''X''], [''state'' \<mapsto> Str ''Y'']]\<rparr>
      else if bytes = ''B''
      then Inr \<lparr>columns = [''state'', ''district''],
                rows = [[''state'' \<mapsto> Str ''X'', ''district'' \<mapsto> Str ''A'']]\<rparr>
      else Inl ''No columns to parse from file'')"

text \<open>
  Two disks for the converter. The first has an output root and an enrolment folder with a
  text file, a spreadsheet whose extension is in capitals and a subfolder holding a
  spreadsheet: nothing the script's pattern matches. The second has an enrolment folder
  with a spreadsheet that is an empty file, and no other input folder.
\<close>

definition disk_reports :: filesystem where
  "disk_reports =
     [(''data_csv_converted'', Dir),
      (''api_data_aadhar_enrolment'', Dir),
      (''api_data_aadhar_enrolment/notes.txt'', File ''A''),
      (''api_data_aadhar_enrolment/sheet.XLSX'', File ''A''),
      (''api_data_aadhar_enrolment/old'', Dir),
      (''api_data_aadhar_enrolment/old/jan.xlsx'', File ''A'')]"

definition disk_bad_sheet :: filesystem where
  "disk_bad_sheet =
     [(''api_data_aadhar_enrolment'', Dir),
      (''api_data_aadhar_enrolment/bad.xlsx'', File [])]"







section \<open>Properties of the column sums\<close>


lemma nansum_no_text:
  assumes "list_all (\<lambda>v. \<not> is_text v) vs"
  shows "nansum np_sum vs =
         Inr (if int64_column vs then Num (wrap64 (sum_list (map num_of vs)))
              else np_sum (map fillna0 vs))"
proof (cases "int64_column vs")
  case True
  then show ?thesis by (simp add: nansum_def)
next
  case False
  then have "vs \<noteq> []" by (auto simp: int64_column_def)
  with assms have "\<not> list_all is_text vs"
    by (cases vs) auto
  moreover from assms have "\<not> list_ex is_text vs"
    by (auto simp: list_all_iff list_ex_iff)
  ultimately show ?thesis using False by (simp add: nansum_def)
qed

lemma sum_columns_no_text:
  "list_all (\<lambda>c. list_all (\<lambda>v. \<not> is_text v) (column_values df c)) cs \<Longrightarrow>
   sum_columns np_sum df cs =
     Inr (map (\<lambda>c. (c, if int64_column (column_values df c)
                        then Num (wrap64 (sum_list (map num_of (column_values df c))))
                        else np_sum (map fillna0 (column_values df c)))) cs)"
  by (induction cs) (simp_all add: nansum_no_text)

lemma column_values_getitem:
  "c \<in> set cols \<Longrightarrow>
   column_values \<lparr>columns = cols, rows = map (\<lambda>r. r |` set cols) (rows df)\<rparr> c =
     column_values df c"
  by (simp add: column_values_def cell_at_def)

lemma sum_columns_cong:
  "(\<And>c. c \<in> set cs \<Longrightarrow> column_values df c = column_values df' c) \<Longrightarrow>
   sum_columns np_sum df cs = sum_columns np_sum df' cs"
  by (induction cs) (simp_all split: sum.split)

text \<open>Behind the guard the selection raises no KeyError, and summing the selected
  frame is summing the requested columns of the table.\<close>

lemma sum_getitem:
  assumes "list_all (\<lambda>c. c \<in> set (columns df)) cols"
  shows "(case getitem df cols of
            Inl e \<Rightarrow> Inl (Raised e)
          | Inr sel \<Rightarrow>
              (case sum_reset_index np_sum sel of
                 Inl e \<Rightarrow> Inl (Raised e)
               | Inr s \<Rightarrow> Inr s)) =
         (case sum_columns np_sum df cols of Inl e \<Rightarrow> Inl (Raised e) | Inr s \<Rightarrow> Inr s)"
proof -
  have "sum_columns np_sum \<lparr>columns = cols, rows = map (\<lambda>r. r |` set cols) (rows df)\<rparr> cols =
        sum_columns np_sum df cols"
    by (rule sum_columns_cong) (simp add: column_values_getitem)
  then show ?thesis
    using assms by (simp add: getitem_def sum_reset_index_def)
qed

text \<open>
  C1 (amended). A table with zero rows never gets totals: whatever columns are asked for,
  and also when all of them are columns of the table, \<open>sumColumns\<close> signals the
  missing-required-columns condition. The guard \<^verbatim>\<open>enrol_df.empty or ...\<close> of lines
  108 and 136 sends the empty table to \<^verbatim>\<open>st.error\<close>.
\<close>

theorem sumColumns_zero_rows:
  "rows df = [] \<Longrightarrow> sumColumns np_sum df cols = Inl MissingRequiredColumns"
  by (simp add: sumColumns_def empty_def)

theorem sumColumns_zero_rows_witness:
  "rows \<lparr>columns = demo_cols, rows = []\<rparr> = [] \<and>
   demographic_updates (\<lambda>vs. NaN) \<lparr>columns = demo_cols, rows = []\<rparr> =
     Inl MissingRequiredColumns"
  using sumColumns_zero_rows [of "\<lparr>columns = demo_cols, rows = []\<rparr>" "\<lambda>vs. NaN" demo_cols]
  by (simp add: demographic_updates_def)

text \<open>
  C1 as stated fails: the enrolment table with the three age columns and no row has all
  requested columns, and the view answers with the error notice, not with three totals
  of 0.
\<close>

theorem sumColumns_zero_rows_counterexample:
  "list_all (\<lambda>c. c \<in> set (columns \<lparr>columns = age_cols, rows = []\<rparr>)) age_cols \<and>
   age_wise_enrolment (\<lambda>vs. NaN) \<lparr>columns = age_cols, rows = []\<rparr> =
     Inl MissingRequiredColumns"
  by (simp add: age_wise_enrolment_def sumColumns_def empty_def age_cols_def)

text \<open>
  C2. When a requested column is not a column of the table, \<open>sumColumns\<close> signals the
  missing-required-columns condition; the result carries no entry, also none for the
  requested columns that are present.
\<close>

theorem sumColumns_missing_column:
  "c \<in> set cols \<Longrightarrow> c \<notin> set (columns df) \<Longrightarrow>
   sumColumns np_sum df cols = Inl MissingRequiredColumns"
  by (auto simp add: sumColumns_def list_all_iff)

theorem sumColumns_missing_column_witness:
  "''b'' \<in> set [''a'', ''b''] \<and>
   ''b'' \<notin> set (columns \<lparr>columns = [''a''], rows = [[''a'' \<mapsto> Num 1]]\<rparr>) \<and>
   sumColumns (\<lambda>vs. NaN) \<lparr>columns = [''a''], rows = [[''a'' \<mapsto> Num 1]]\<rparr> [''a'', ''b''] =
     Inl MissingRequiredColumns"
  using sumColumns_missing_column
    [of "''b''" "[''a'', ''b'']" "\<lparr>columns = [''a''], rows = [[''a'' \<mapsto> Num 1]]\<rparr>" "\<lambda>vs. NaN"]
  by simp




section \<open>Properties of the matched sums\<close>

lemma sublist_map_iff:
  "sublist x (map f c) \<longleftrightarrow> (\<exists>b p a. c = b @ p @ a \<and> map f p = x)"
proof
  assume "sublist x (map f c)"
  then obtain ps ss where "map f c = ps @ x @ ss" by (auto simp: sublist_def)
  from this [unfolded map_eq_append_conv]
  obtain b r where br: "c = b @ r" "x @ ss = map f r" by blast
  from br(2) [symmetric, unfolded map_eq_append_conv]
  obtain p a where "r = p @ a" "map f p = x" by metis
  with br show "\<exists>b p a. c = b @ p @ a \<and> map f p = x" by blast
next
  assume "\<exists>b p a. c = b @ p @ a \<and> map f p = x"
  then obtain b p a where "c = b @ p @ a" "map f p = x" by blast
  then have "map f c = map f b @ x @ map f a" by simp
  then show "sublist x (map f c)" unfolding sublist_def by blast
qed

lemma char_of_code:
  assumes "(of_char c :: nat) = n" and "char_of n = d"
  shows "c = d"
proof -
  have "c = char_of (of_char c :: nat)" by simp
  with assms show ?thesis by simp
qed

lemma code_A: "char_of (65 :: nat) = CHR ''A''"
  by code_simp

lemma code_G: "char_of (71 :: nat) = CHR ''G''"
  by code_simp

lemma code_E: "char_of (69 :: nat) = CHR ''E''"
  by code_simp

lemma same_letter_a: "same_letter c (CHR ''a'') \<longleftrightarrow> c = CHR ''a'' \<or> c = CHR ''A''"
  by (auto simp: same_letter_def dest: char_of_code [OF _ code_A])

lemma same_letter_g: "same_letter c (CHR ''g'') \<longleftrightarrow> c = CHR ''g'' \<or> c = CHR ''G''"
  by (auto simp: same_letter_def dest: char_of_code [OF _ code_G])

lemma same_letter_e: "same_letter c (CHR ''e'') \<longleftrightarrow> c = CHR ''e'' \<or> c = CHR ''E''"
  by (auto simp: same_letter_def dest: char_of_code [OF _ code_E])

lemma lower_char_a: "lower_char c = CHR ''a'' \<longleftrightarrow> c = CHR ''a'' \<or> c = CHR ''A''"
  by (auto simp: lower_char_def split: if_splits)

lemma lower_char_g: "lower_char c = CHR ''g'' \<longleftrightarrow> c = CHR ''g'' \<or> c = CHR ''G''"
  by (auto simp: lower_char_def split: if_splits)

lemma lower_char_e: "lower_char c = CHR ''e'' \<longleftrightarrow> c = CHR ''e'' \<or> c = CHR ''E''"
  by (auto simp: lower_char_def split: if_splits)

lemma lower_is_age: "lower p = ''age'' \<longleftrightarrow> list_all2 same_letter p ''age''"
  by (auto simp: lower_def list_all2_Cons2 same_letter_a same_letter_g same_letter_e
      lower_char_a lower_char_g lower_char_e)

lemma age_in_lower: "sublist ''age'' (lower c) = contains_ignoring_case c ''age''"
  unfolding contains_ignoring_case_def lower_is_age [symmetric]
  by (simp add: lower_def sublist_map_iff)

lemma bio_age_cols_table_age: "bio_age_cols table_age = [''age_x'', ''age_y'']"
  unfolding bio_age_cols_def table_age_def by code_simp

lemma bio_age_cols_table_capitals:
  "bio_age_cols table_capitals = [''Bio_AGE_5_17'', ''aGe'', ''Agent_1'']"
  unfolding bio_age_cols_def table_capitals_def by code_simp

lemma bio_age_cols_name:
  "bio_age_cols \<lparr>columns = [''name''], rows = [[''name'' \<mapsto> Str ''p'']]\<rparr> = []"
  unfolding bio_age_cols_def by code_simp

lemma bio_age_cols_present: "list_all (\<lambda>c. c \<in> set (columns df)) (bio_age_cols df)"
  by (simp add: bio_age_cols_def list_all_iff)

text \<open>
  C7. The columns the biometric view sums are exactly the columns of the table whose name
  contains "age" whatever the case of its letters, in the table's column order. When
  there is none the view signals the no-matching-columns condition. When there are some,
  the table has a row, and the selected columns hold no text, the result has one
  (label, total) entry per selected column, in that order, with the totals of the
  fixed-column sums: the int64 sum of an int64 column, numpy's sum of the values with 0
  for NaN otherwise.
\<close>

theorem sumMatchingColumns_selection:
  "bio_age_cols df = filter (\<lambda>c. contains_ignoring_case c ''age'') (columns df) \<and>
   (bio_age_cols df = [] \<longrightarrow> sumMatchingColumns np_sum df = Inl NoMatchingColumns) \<and>
   (\<not> empty df \<and> bio_age_cols df \<noteq> [] \<and>
    list_all (\<lambda>c. list_all (\<lambda>v. \<not> is_text v) (column_values df c)) (bio_age_cols df) \<longrightarrow>
    sumMatchingColumns np_sum df =
      Inr (map (\<lambda>c. (c, if int64_column (column_values df c)
                         then Num (wrap64 (\<Sum>r\<leftarrow>rows df. num_of (cell_at r c)))
                         else np_sum (map fillna0 (column_values df c))))
             (bio_age_cols df)))"
proof (intro conjI impI)
  show "bio_age_cols df = filter (\<lambda>c. contains_ignoring_case c ''age'') (columns df)"
    by (simp add: bio_age_cols_def age_in_lower)
next
  assume "bio_age_cols df = []"
  then show "sumMatchingColumns np_sum df = Inl NoMatchingColumns"
    by (simp add: sumMatchingColumns_def)
next
  assume a: "\<not> empty df \<and> bio_age_cols df \<noteq> [] \<and>
    list_all (\<lambda>c. list_all (\<lambda>v. \<not> is_text v) (column_values df c)) (bio_age_cols df)"
  have "sumMatchingColumns np_sum df =
        (case sum_columns np_sum df (bio_age_cols df) of
           Inl e \<Rightarrow> Inl (Raised e)
         | Inr s \<Rightarrow> Inr s)"
    using a sum_getitem [OF bio_age_cols_present, of np_sum df]
    by (simp add: sumMatchingColumns_def)
  then show "sumMatchingColumns np_sum df =
      Inr (map (\<lambda>c. (c, if int64_column (column_values df c)
                         then Num (wrap64 (\<Sum>r\<leftarrow>rows df. num_of (cell_at r c)))
                         else np_sum (map fillna0 (column_values df c))))
             (bio_age_cols df))"
    using a sum_columns_no_text [of df "bio_age_cols df" np_sum]
    by (simp add: column_values_def comp_def)
qed

text \<open>The spec's example: on age_x = [1, 1], age_y = [2, 2] and a name column the
  result is [("age_x", 2), ("age_y", 4)]; a table with a name column only gets the
  notice. On the table with capitals the names with AGE, aGe and Age in them are selected,
  and a_g_e and !GE are not.\<close>

theorem sumMatchingColumns_selection_witness:
  "bio_age_cols table_age = [''age_x'', ''age_y''] \<and>
   sumMatchingColumns (\<lambda>vs. NaN) table_age = Inr [(''age_x'', Num 2), (''age_y'', Num 4)] \<and>
   bio_age_cols \<lparr>columns = [''name''], rows = [[''name'' \<mapsto> Str ''p'']]\<rparr> = [] \<and>
   sumMatchingColumns (\<lambda>vs. NaN) \<lparr>columns = [''name''], rows = [[''name'' \<mapsto> Str ''p'']]\<rparr> =
     Inl NoMatchingColumns \<and>
   filter (\<lambda>c. contains_ignoring_case c ''age'') (columns table_capitals) =
     [''Bio_AGE_5_17'', ''aGe'', ''Agent_1''] \<and>
   sumMatchingColumns (\<lambda>vs. NaN) table_capitals =
     Inr [(''Bio_AGE_5_17'', Num 7), (''aGe'', Num 1), (''Agent_1'', Num 2)]"
  using sumMatchingColumns_selection [of table_age "\<lambda>vs. NaN"]
    sumMatchingColumns_selection
      [of "\<lparr>columns = [''name''], rows = [[''name'' \<mapsto> Str ''p'']]\<rparr>" "\<lambda>vs. NaN"]
    sumMatchingColumns_selection [of table_capitals "\<lambda>vs. NaN"]
  by (simp add: bio_age_cols_table_age bio_age_cols_name bio_age_cols_table_capitals)
    (simp add: table_age_def table_capitals_def empty_def column_values_def cell_at_def
      int64_column_def int64_def wrap64_def)

section \<open>Properties of the grouped counts\<close>

lemma set_unique: "set (unique seen vs) = set seen \<union> set vs"
  by (induction vs arbitrary: seen) auto

lemma distinct_unique: "distinct seen \<Longrightarrow> distinct (unique seen vs)"
  by (induction vs arbitrary: seen) auto

lemma set_dropna_unique: "set (dropna_unique vs) = set vs - {NaN}"
  by (auto simp: dropna_unique_def set_unique)

lemma distinct_dropna_unique: "distinct (dropna_unique vs)"
  by (simp add: dropna_unique_def distinct_unique)

lemma Num_num_of: "is_number v \<Longrightarrow> Num (num_of v) = v"
  by (cases v) simp_all

lemma Str_str_of: "is_text v \<Longrightarrow> Str (str_of v) = v"
  by (cases v) simp_all

lemma num_of_inject: "is_number a \<Longrightarrow> is_number b \<Longrightarrow> num_of a = num_of b \<Longrightarrow> a = b"
  by (cases a; cases b) simp_all

lemma str_of_inject: "is_text a \<Longrightarrow> is_text b \<Longrightarrow> str_of a = str_of b \<Longrightarrow> a = b"
  by (cases a; cases b) simp_all

lemma number_or_text: "v \<noteq> NaN \<Longrightarrow> is_number v \<or> is_text v"
  by (cases v) simp_all

lemma set_numbers: "set (map Num (sort (map num_of (filter is_number ks)))) = {k \<in> set ks. is_number k}"
proof -
  have "(\<lambda>k. Num (num_of k)) ` {k \<in> set ks. is_number k} = {k \<in> set ks. is_number k}"
    by (force simp: Num_num_of)
  then show ?thesis by (simp add: image_image)
qed

lemma set_texts: "set (map Str (sort (map str_of (filter is_text ks)))) = {k \<in> set ks. is_text k}"
proof -
  have "(\<lambda>k. Str (str_of k)) ` {k \<in> set ks. is_text k} = {k \<in> set ks. is_text k}"
    by (force simp: Str_str_of)
  then show ?thesis by (simp add: image_image)
qed

lemma set_group_keys: "set (group_keys vs) = set vs - {NaN}"
proof -
  have "set (group_keys vs) =
        {k \<in> set (dropna_unique vs). is_number k} \<union> {k \<in> set (dropna_unique vs). is_text k}"
    unfolding group_keys_def Let_def set_append set_numbers set_texts ..
  also have "\<dots> = set vs - {NaN}"
    using number_or_text by (auto simp: set_dropna_unique)
  finally show ?thesis .
qed

lemma distinct_group_keys: "distinct (group_keys vs)"
proof -
  let ?ks = "dropna_unique vs"
  have d: "distinct ?ks" by (rule distinct_dropna_unique)
  have "inj_on num_of (set (filter is_number ?ks))"
    by (rule inj_onI) (simp add: num_of_inject)
  then have n: "distinct (map num_of (filter is_number ?ks))"
    using d by (simp add: distinct_map)
  have "inj_on str_of (set (filter is_text ?ks))"
    by (rule inj_onI) (simp add: str_of_inject)
  then have s: "distinct (map str_of (filter is_text ?ks))"
    using d by (simp add: distinct_map)
  have "distinct (map Num (sort (map num_of (filter is_number ?ks))))"
    using n by (simp add: distinct_map inj_on_def)
  moreover have "distinct (map Str (sort (map str_of (filter is_text ?ks))))"
    using s by (simp add: distinct_map inj_on_def)
  moreover have "set (map Num (sort (map num_of (filter is_number ?ks)))) \<inter>
                 set (map Str (sort (map str_of (filter is_text ?ks)))) = {}"
    by auto
  ultimately show ?thesis
    unfolding group_keys_def Let_def distinct_append by blast
qed

lemma count_list_map:
  "count_list (map f xs) k = length (filter (\<lambda>x. f x = k) xs)"
  by (induction xs) simp_all

lemma eq_selected_iff: "eq_selected v s \<longleftrightarrow> v \<noteq> NaN \<and> s = Some v"
  by (auto simp: eq_selected_def split: option.splits)

lemma states_sortable:
  assumes "list_all (\<lambda>v. \<not> is_text v) (column_values df ''state'') \<or>
           list_all (\<lambda>v. \<not> is_number v) (column_values df ''state'')"
  shows "\<exists>options. states df = Inr options"
proof -
  let ?ks = "dropna_unique (column_values df ''state'')"
  from assms have "list_all is_number ?ks \<or> list_all is_text ?ks"
    using number_or_text by (auto simp: list_all_iff set_dropna_unique)
  then show ?thesis
    by (auto simp: states_def sorted_cells_def)
qed

text \<open>
  C6 (amended). For a table with at least one row that has the state and the district
  column, and whose state column holds, NaN aside, numbers only or texts only, the
  regional view does not signal an error. Its result lists each district value other
  than NaN once, with the number of rows whose state is not NaN and equals the selected
  state and whose district is that value; only districts with at least one such row are
  listed. When no row matches the selected state the result is the empty list.
\<close>

theorem countByGroup_counts:
  assumes "\<not> empty df"
    and "''state'' \<in> set (columns df)"
    and "''district'' \<in> set (columns df)"
    and "list_all (\<lambda>v. \<not> is_text v) (column_values df ''state'') \<or>
         list_all (\<lambda>v. \<not> is_number v) (column_values df ''state'')"
  shows "\<exists>options res.
           states df = Inr options \<and>
           countByGroup selectbox df = Inr res \<and>
           distinct (map fst res) \<and>
           (\<forall>g n. (g, n) \<in> set res \<longleftrightarrow>
              g \<noteq> NaN \<and> 0 < n \<and>
              n = length (filter (\<lambda>r. cell_at r ''district'' = g)
                    (filter (\<lambda>r. cell_at r ''state'' \<noteq> NaN \<and>
                                 selectbox options = Some (cell_at r ''state'')) (rows df)))) \<and>
           ((\<forall>r \<in> set (rows df). cell_at r ''state'' = NaN \<or>
                 selectbox options \<noteq> Some (cell_at r ''state'')) \<longrightarrow> res = [])"
proof -
  from states_sortable [OF assms(4)] obtain options where opts: "states df = Inr options" ..
  let ?m = "filter (\<lambda>r. cell_at r ''state'' \<noteq> NaN \<and>
                         selectbox options = Some (cell_at r ''state'')) (rows df)"
  let ?vs = "map (\<lambda>r. cell_at r ''district'') ?m"
  let ?res = "map (\<lambda>k. (k, count_list ?vs k)) (group_keys ?vs)"
  have run: "countByGroup selectbox df = Inr ?res"
    using assms(1-3) opts
    by (simp add: countByGroup_def Let_def groupby_size_def filter_eq_def column_values_def
        eq_selected_iff)
  have keys: "map fst ?res = group_keys ?vs"
    by (simp add: comp_def)
  have d: "distinct (map fst ?res)"
    unfolding keys by (rule distinct_group_keys)
  have mem: "(g, n) \<in> set ?res \<longleftrightarrow>
      g \<noteq> NaN \<and> 0 < n \<and> n = length (filter (\<lambda>r. cell_at r ''district'' = g) ?m)" for g n
  proof -
    have "(g, n) \<in> set ?res \<longleftrightarrow> g \<in> set (group_keys ?vs) \<and> n = count_list ?vs g"
      by auto
    also have "\<dots> \<longleftrightarrow> g \<in> set ?vs - {NaN} \<and> n = count_list ?vs g"
      by (simp only: set_group_keys)
    also have "\<dots> \<longleftrightarrow> g \<noteq> NaN \<and> 0 < n \<and> n = count_list ?vs g"
      using count_list_0_iff [of ?vs g] by auto
    finally show ?thesis by (simp only: count_list_map)
  qed
  have none: "(\<forall>r \<in> set (rows df). cell_at r ''state'' = NaN \<or>
                 selectbox options \<noteq> Some (cell_at r ''state'')) \<longrightarrow> ?res = []"
  proof
    assume "\<forall>r \<in> set (rows df). cell_at r ''state'' = NaN \<or>
                 selectbox options \<noteq> Some (cell_at r ''state'')"
    then have "?m = []" by (auto simp: filter_empty_conv)
    then show "?res = []" by (simp add: group_keys_def dropna_unique_def)
  qed
  from opts run d mem none show ?thesis by blast
qed


lemma states_table_regions: "states table_regions = Inr [Str ''X'', Str ''Y'']"
  unfolding states_def table_regions_def by code_simp

lemma countByGroup_table_regions:
  "countByGroup (\<lambda>options. Some (Str ''X'')) table_regions = Inr [(Str ''A'', 2), (Str ''B'', 1)]"
  unfolding table_regions_def by code_simp

lemma countByGroup_table_regions_none:
  "countByGroup (\<lambda>options. Some (Str ''Z'')) table_regions = Inr []"
  unfolding table_regions_def by code_simp

text \<open>On the table of regions, state X gives [(A, 2), (B, 1)]: the row without state
  and the row without district are not counted. A state no row has gives the empty
  list.\<close>

theorem countByGroup_counts_witness:
  "\<not> empty table_regions \<and>
   states table_regions = Inr [Str ''X'', Str ''Y''] \<and>
   countByGroup (\<lambda>options. Some (Str ''X'')) table_regions = Inr [(Str ''A'', 2), (Str ''B'', 1)] \<and>
   countByGroup (\<lambda>options. Some (Str ''Z'')) table_regions = Inr []"
  using countByGroup_counts [of table_regions "\<lambda>options. Some (Str ''X'')"]
  by (simp add: states_table_regions countByGroup_table_regions countByGroup_table_regions_none)
    (simp add: table_regions_def empty_def)

text \<open>
  C6 as stated fails twice. A table with both columns and no row gets the error notice
  (the guard \<^verbatim>\<open>bio_df.empty or ...\<close> of line 190), not an empty result. And when the
  state column holds a text and a number, \<^verbatim>\<open>sorted\<close> on line 193 raises TypeError
  before any row is counted.
\<close>

theorem countByGroup_counts_counterexample:
  "countByGroup (\<lambda>options. Some (Str ''X'')) \<lparr>columns = [''state'', ''district''], rows = []\<rparr> =
     Inl StateOrDistrictMissing \<and>
   countByGroup (\<lambda>options. Some (Str ''X''))
     \<lparr>columns = [''state'', ''district''],
      rows = [[''state'' \<mapsto> Str ''X'', ''district'' \<mapsto> Str ''A''],
              [''state'' \<mapsto> Num 1, ''district'' \<mapsto> Str ''A'']]\<rparr> =
     Inl (Raised TypeError)"
  by code_simp

section \<open>Properties of the loader\<close>

lemma load_loop_eq:
  "load_loop rd fs fl dfs ws =
     (dfs @ concat (map (\<lambda>f. case read_file rd fs f of Inl e \<Rightarrow> [] | Inr df \<Rightarrow> [df]) fl),
      ws @ concat (map (\<lambda>f. case read_file rd fs f of
                              Inl e \<Rightarrow> [''Failed to load '' @ f @ '': '' @ e]
                            | Inr df \<Rightarrow> []) fl))"
  by (induction fl arbitrary: dfs ws) (simp_all add: warning_text_def split: sum.split)

lemma length_concat_own_rows:
  "length (concat (map own_rows dfs)) = (\<Sum>df\<leftarrow>dfs. length (rows df))"
  by (induction dfs) (simp_all add: own_rows_def)

lemma length_rows_pd_concat:
  "pd_concat dfs = Inr t \<Longrightarrow> length (rows t) = (\<Sum>df\<leftarrow>dfs. length (rows df))"
  using length_concat_own_rows [of dfs]
  by (auto simp: pd_concat_def split: list.splits if_splits)

lemma pd_concat_returns:
  "dfs \<noteq> [] \<Longrightarrow> list_all (\<lambda>d. distinct (columns d)) dfs \<Longrightarrow> \<exists>t. pd_concat dfs = Inr t"
  by (auto simp: pd_concat_def split: list.splits)

lemma read_file_unique:
  "unique_names rd \<Longrightarrow> read_file rd fs f = Inr df \<Longrightarrow> distinct (columns df)"
  by (auto simp: unique_names_def read_file_def split: option.splits node.splits)

lemma frames_unique:
  "unique_names rd \<Longrightarrow>
   list_all (\<lambda>d. distinct (columns d))
     (concat (map (\<lambda>f. case read_file rd fs f of Inl e \<Rightarrow> [] | Inr df \<Rightarrow> [df]) fl))"
  by (induction fl) (auto split: sum.splits dest: read_file_unique)

lemma length_rows_read:
  "(\<Sum>df\<leftarrow>concat (map (\<lambda>f. case read_file rd fs f of Inl e \<Rightarrow> [] | Inr df \<Rightarrow> [df]) fl).
      length (rows df)) =
   (\<Sum>f\<leftarrow>fl. case read_file rd fs f of Inl e \<Rightarrow> 0 | Inr df \<Rightarrow> length (rows df))"
  by (induction fl) (simp_all split: sum.split)

lemma length_warnings_read:
  "length (concat (map (\<lambda>f. case read_file rd fs f of
                              Inl e \<Rightarrow> [''Failed to load '' @ f @ '': '' @ e]
                            | Inr df \<Rightarrow> []) fl)) =
   length (filter (\<lambda>f. isl (read_file rd fs f)) fl)"
  by (induction fl) (simp_all split: sum.split)


text \<open>The loader, with the loop written as what it collects.\<close>

lemma load_folder_csvs_eq:
  "load_folder_csvs g rd fs p =
     (case glob g fs p ''.csv'' of
        Inl e \<Rightarrow> (Inl e, [])
      | Inr fl \<Rightarrow>
          (if concat (map (\<lambda>f. case read_file rd fs f of Inl e \<Rightarrow> [] | Inr df \<Rightarrow> [df]) fl) \<noteq> []
           then pd_concat
                  (concat (map (\<lambda>f. case read_file rd fs f of Inl e \<Rightarrow> [] | Inr df \<Rightarrow> [df]) fl))
           else Inr DataFrame,
           concat (map (\<lambda>f. case read_file rd fs f of
                               Inl e \<Rightarrow> [''Failed to load '' @ f @ '': '' @ e]
                             | Inr df \<Rightarrow> []) fl)))"
  by (auto simp: load_folder_csvs_def load_loop_eq split: sum.split)

lemma glob_returns: "CHR 0x00 \<notin> set p \<Longrightarrow> \<exists>fl. glob g fs p ext = Inr fl"
  by (simp add: glob_def)

text \<open>
  C4. Whatever the folder holds, the warnings \<open>load_folder_csvs\<close> shows are, in the order
  of the files found, one per file that does not parse, naming the file and the reason;
  so there are exactly as many warnings as failed files. A failed file ends neither the
  loop nor the load: the files after it are read as well. Every table the call returns
  has as many rows as the files that parse have together. And the call does return a
  table when the path holds no NUL character and the reader gives its frames every
  column name once.
\<close>

theorem load_folder_csvs_rows_and_warnings:
  "snd (load_folder_csvs os_glob read_csv fs folder_path) =
     concat (map (\<lambda>f. case read_file read_csv fs f of
                         Inl e \<Rightarrow> [''Failed to load '' @ f @ '': '' @ e]
                       | Inr df \<Rightarrow> [])
               (files_found os_glob fs folder_path)) \<and>
   length (snd (load_folder_csvs os_glob read_csv fs folder_path)) =
     length (filter (\<lambda>f. isl (read_file read_csv fs f)) (files_found os_glob fs folder_path)) \<and>
   (\<forall>t. fst (load_folder_csvs os_glob read_csv fs folder_path) = Inr t \<longrightarrow>
      length (rows t) =
        (\<Sum>f\<leftarrow>files_found os_glob fs folder_path.
           case read_file read_csv fs f of Inl e \<Rightarrow> 0 | Inr df \<Rightarrow> length (rows df))) \<and>
   (CHR 0x00 \<notin> set folder_path \<and> unique_names read_csv \<longrightarrow>
      (\<exists>t. fst (load_folder_csvs os_glob read_csv fs folder_path) = Inr t))"
proof (intro conjI allI impI)
  let ?fl = "files_found os_glob fs folder_path"
  let ?dfs = "\<lambda>fl. concat (map (\<lambda>f. case read_file read_csv fs f of
                                     Inl e \<Rightarrow> [] | Inr df \<Rightarrow> [df]) fl)"
  let ?ws = "\<lambda>fl. concat (map (\<lambda>f. case read_file read_csv fs f of
                         Inl e \<Rightarrow> [''Failed to load '' @ f @ '': '' @ e]
                       | Inr df \<Rightarrow> []) fl)"
  show w: "snd (load_folder_csvs os_glob read_csv fs folder_path) = ?ws ?fl"
    by (simp add: load_folder_csvs_eq files_found_def split: sum.split)
  show "length (snd (load_folder_csvs os_glob read_csv fs folder_path)) =
     length (filter (\<lambda>f. isl (read_file read_csv fs f)) ?fl)"
    unfolding w by (rule length_warnings_read)
  show "length (rows t) =
        (\<Sum>f\<leftarrow>?fl. case read_file read_csv fs f of Inl e \<Rightarrow> 0 | Inr df \<Rightarrow> length (rows df))"
    if t: "fst (load_folder_csvs os_glob read_csv fs folder_path) = Inr t" for t
  proof -
    from t obtain fl where fl: "glob os_glob fs folder_path ''.csv'' = Inr fl"
      by (cases "glob os_glob fs folder_path ''.csv''") (simp_all add: load_folder_csvs_eq)
    then have found: "?fl = fl" by (simp add: files_found_def)
    have "length (rows t) = (\<Sum>df\<leftarrow>?dfs fl. length (rows df))"
    proof (cases "?dfs fl = []")
      case True
      with t fl have "t = DataFrame" by (simp add: load_folder_csvs_eq)
      then show ?thesis unfolding True by (simp add: DataFrame_def)
    next
      case False
      with t fl have "pd_concat (?dfs fl) = Inr t" by (simp add: load_folder_csvs_eq)
      then show ?thesis by (rule length_rows_pd_concat)
    qed
    then show ?thesis unfolding found by (simp only: length_rows_read)
  qed
  show "\<exists>t. fst (load_folder_csvs os_glob read_csv fs folder_path) = Inr t"
    if a: "CHR 0x00 \<notin> set folder_path \<and> unique_names read_csv"
  proof -
    from a glob_returns obtain fl where fl: "glob os_glob fs folder_path ''.csv'' = Inr fl"
      by blast
    show ?thesis
    proof (cases "?dfs fl = []")
      case True
      with fl show ?thesis by (simp add: load_folder_csvs_eq)
    next
      case False
      from a have "list_all (\<lambda>d. distinct (columns d)) (?dfs fl)"
        by (simp add: frames_unique)
      from pd_concat_returns [OF False this] fl False show ?thesis
        by (auto simp: load_folder_csvs_eq)
    qed
  qed
qed


lemma cached_hit:
  "map_of (cache st) p = Some (t, ws) \<Longrightarrow>
   cached_load_folder_csvs g rd fs st p = ((Inr t, ws), st)"
  by (simp add: cached_load_folder_csvs_def)

lemma cached_stores:
  "fst (fst (cached_load_folder_csvs g rd fs st p)) = Inr t \<Longrightarrow>
   \<exists>ws. fst (cached_load_folder_csvs g rd fs st p) = (Inr t, ws) \<and>
        map_of (cache (snd (cached_load_folder_csvs g rd fs st p))) p = Some (t, ws)"
  by (auto simp: cached_load_folder_csvs_def split: option.splits prod.splits sum.splits)

lemma cached_keeps:
  "map_of (cache st) p = Some v \<Longrightarrow>
   map_of (cache (snd (cached_load_folder_csvs g rd fs st q))) p = Some v"
  by (auto simp: cached_load_folder_csvs_def split: option.splits prod.splits sum.splits)

lemma calls_keep:
  "map_of (cache st) p = Some v \<Longrightarrow> map_of (cache (calls g rd later st)) p = Some v"
  by (induction later arbitrary: st) (auto simp: cached_keeps)

lemma load_returns:
  assumes "unique_names rd"
  shows "\<exists>r ws. load_folder_csvs g rd fs p = (Inr r, ws) \<or>
           (load_folder_csvs g rd fs p = (Inl (ValueError ''embedded null byte''), []) \<and>
            CHR 0x00 \<in> set p)"
proof (cases "CHR 0x00 \<in> set p")
  case True
  then show ?thesis by (simp add: load_folder_csvs_def glob_def)
next
  case False
  with glob_returns obtain fl where fl: "glob g fs p ''.csv'' = Inr fl" by blast
  let ?dfs = "concat (map (\<lambda>f. case read_file rd fs f of Inl e \<Rightarrow> [] | Inr df \<Rightarrow> [df]) fl)"
  show ?thesis
  proof (cases "?dfs = []")
    case True
    with fl show ?thesis by (simp add: load_folder_csvs_eq)
  next
    case False
    from assms have "list_all (\<lambda>d. distinct (columns d)) ?dfs" by (simp add: frames_unique)
    from pd_concat_returns [OF False this] fl False show ?thesis
      by (auto simp: load_folder_csvs_eq)
  qed
qed

lemma cached_null:
  "CHR 0x00 \<in> set p \<Longrightarrow> map_of (cache st) p = None \<Longrightarrow>
   cached_load_folder_csvs g rd fs st p = ((Inl (ValueError ''embedded null byte''), []), st)"
  by (simp add: cached_load_folder_csvs_def load_folder_csvs_def glob_def reads_of_def)

lemma cached_only_returns:
  "map_of (cache st) p = None \<Longrightarrow> CHR 0x00 \<in> set p \<Longrightarrow>
   map_of (cache (snd (cached_load_folder_csvs g rd fs st q))) p = None"
  by (auto simp: cached_load_folder_csvs_def load_folder_csvs_def glob_def
      split: option.splits prod.splits sum.splits)

lemma calls_only_returns:
  "map_of (cache st) p = None \<Longrightarrow> CHR 0x00 \<in> set p \<Longrightarrow>
   map_of (cache (calls g rd later st)) p = None"
  by (induction later arbitrary: st) (auto simp: cached_only_returns)

text \<open>
  C8. A call of the cached loader with a path it was called with before, after any calls
  in between and whatever the disk holds by then, returns the value of the first call
  (the same table and the same warnings) and leaves the state as it is: the count of disk
  reads does not move. This holds whenever the first call returned a table, which is
  what the cache keeps; and for every path when the reader gives its frames every column
  name once, since then the only exception left is that of a NUL character in the path,
  raised again by every call before the disk is looked at.
\<close>

theorem cached_load_idempotent:
  assumes "unique_names read_csv \<or>
           (\<exists>t. fst (fst (cached_load_folder_csvs os_glob read_csv fs st folder_path)) = Inr t)"
  shows "cached_load_folder_csvs os_glob read_csv fs'
           (calls os_glob read_csv later
              (snd (cached_load_folder_csvs os_glob read_csv fs st folder_path)))
           folder_path =
         (fst (cached_load_folder_csvs os_glob read_csv fs st folder_path),
          calls os_glob read_csv later
            (snd (cached_load_folder_csvs os_glob read_csv fs st folder_path)))"
proof -
  let ?first = "cached_load_folder_csvs os_glob read_csv fs st folder_path"
  have "(\<exists>t. fst (fst ?first) = Inr t) \<or>
        (?first = ((Inl (ValueError ''embedded null byte''), []), st) \<and>
         CHR 0x00 \<in> set folder_path \<and> map_of (cache st) folder_path = None)"
  proof (cases "\<exists>t. fst (fst ?first) = Inr t")
    case False
    with assms have u: "unique_names read_csv" by blast
    from False have miss: "map_of (cache st) folder_path = None"
      by (auto simp: cached_load_folder_csvs_def split: option.splits)
    from load_returns [OF u, of os_glob fs folder_path] False miss
    have "CHR 0x00 \<in> set folder_path"
      by (auto simp: cached_load_folder_csvs_def)
    with miss cached_null show ?thesis by simp
  qed simp
  then show ?thesis
  proof
    assume "\<exists>t. fst (fst ?first) = Inr t"
    then obtain t where "fst (fst ?first) = Inr t" ..
    from cached_stores [OF this] obtain ws where
      ws: "fst ?first = (Inr t, ws)" "map_of (cache (snd ?first)) folder_path = Some (t, ws)"
      by blast
    from calls_keep [OF ws(2), of os_glob read_csv later]
    show ?thesis unfolding ws(1) by (rule cached_hit)
  next
    assume a: "?first = ((Inl (ValueError ''embedded null byte''), []), st) \<and>
         CHR 0x00 \<in> set folder_path \<and> map_of (cache st) folder_path = None"
    then have "map_of (cache (calls os_glob read_csv later st)) folder_path = None"
      by (simp add: calls_only_returns)
    with a cached_null [of folder_path "calls os_glob read_csv later st" os_glob read_csv fs']
    show ?thesis by simp
  qed
qed

lemma glob_disk_example:
  "glob (\<lambda>fs p ext. []) disk_example ''data/enrol'' ''.csv'' =
     Inr [''data/enrol/a.csv'', ''data/enrol/bad.csv'', ''data/enrol/b.csv'']"
  unfolding disk_example_def by code_simp

lemma glob_disk_broken:
  "glob (\<lambda>fs p ext. []) disk_example ''data/broken'' ''.csv'' = Inr [''data/broken/bad.csv'']"
  unfolding disk_example_def by code_simp

lemma load_disk_example:
  "load_folder_csvs (\<lambda>fs p ext. []) reader_example disk_example ''data/enrol'' =
     (Inr \<lparr>columns = [''state'', ''district''],
           rows = [[''state'' \<mapsto> Str ''X''], [''state'' \<mapsto> Str ''Y''],
                   [''state'' \<mapsto> Str ''X'', ''district'' \<mapsto> Str ''A'']]\<rparr>,
      [''Failed to load data/enrol/bad.csv: No columns to parse from file''])"
  by (simp add: load_folder_csvs_eq glob_disk_example)
    (auto simp add: read_file_def disk_example_def reader_example_def pd_concat_def own_rows_def
      restrict_map_def fun_eq_iff)

lemma load_disk_broken:
  "load_folder_csvs (\<lambda>fs p ext. []) reader_example disk_example ''data/broken'' =
     (Inr DataFrame, [''Failed to load data/broken/bad.csv: No columns to parse from file''])"
  by (simp add: load_folder_csvs_eq glob_disk_broken)
    (simp add: read_file_def disk_example_def reader_example_def)

text \<open>On the example disk: two files parse (2 + 1 rows), the empty one between them
  gives the one warning, and the text file and the subfolder's file are not looked
  at.\<close>

theorem load_folder_csvs_rows_and_warnings_witness:
  "files_found (\<lambda>fs p ext. []) disk_example ''data/enrol'' =
     [''data/enrol/a.csv'', ''data/enrol/bad.csv'', ''data/enrol/b.csv''] \<and>
   (\<exists>t. fst (load_folder_csvs (\<lambda>fs p ext. []) reader_example disk_example ''data/enrol'') = Inr t \<and>
        length (rows t) = 3) \<and>
   snd (load_folder_csvs (\<lambda>fs p ext. []) reader_example disk_example ''data/enrol'') =
     [''Failed to load data/enrol/bad.csv: No columns to parse from file'']"
  using load_folder_csvs_rows_and_warnings
    [of "\<lambda>fs p ext. []" reader_example disk_example "''data/enrol''"]
  by (simp add: files_found_def glob_disk_example load_disk_example)


lemma unique_names_reader_example: "unique_names reader_example"
  by (auto simp: unique_names_def reader_example_def split: if_splits)






text \<open>On the example disk: the first call reads the disk 4 times (the listing and three
  files), a call for another folder 2 times, and the second call for the first folder,
  made after the disk was wiped, returns what the first call loaded and reads
  nothing.\<close>

theorem cached_load_idempotent_witness:
  "unique_names reader_example \<and>
   fst (cached_load_folder_csvs (\<lambda>fs p ext. []) reader_example []
          (calls (\<lambda>fs p ext. []) reader_example [(disk_example, ''data/broken'')]
             (snd (cached_load_folder_csvs (\<lambda>fs p ext. []) reader_example disk_example
                     \<lparr>cache = [], disk_reads = 0\<rparr> ''data/enrol'')))
          ''data/enrol'') =
     load_folder_csvs (\<lambda>fs p ext. []) reader_example disk_example ''data/enrol'' \<and>
   disk_reads (snd (cached_load_folder_csvs (\<lambda>fs p ext. []) reader_example disk_example
                     \<lparr>cache = [], disk_reads = 0\<rparr> ''data/enrol'')) = 4 \<and>
   disk_reads (calls (\<lambda>fs p ext. []) reader_example [(disk_example, ''data/broken'')]
             (snd (cached_load_folder_csvs (\<lambda>fs p ext. []) reader_example disk_example
                     \<lparr>cache = [], disk_reads = 0\<rparr> ''data/enrol''))) = 6 \<and>
   disk_reads (snd (cached_load_folder_csvs (\<lambda>fs p ext. []) reader_example []
          (calls (\<lambda>fs p ext. []) reader_example [(disk_example, ''data/broken'')]
             (snd (cached_load_folder_csvs (\<lambda>fs p ext. []) reader_example disk_example
                     \<lparr>cache = [], disk_reads = 0\<rparr> ''data/enrol'')))
          ''data/enrol'')) = 6"
  using cached_load_idempotent [of reader_example "\<lambda>fs p ext. []" disk_example
      "\<lparr>cache = [], disk_reads = 0\<rparr>" "''data/enrol''" "[]"
      "[(disk_example, ''data/broken'')]"]
  by (simp add: unique_names_reader_example cached_load_folder_csvs_def reads_of_def
      load_disk_example load_disk_broken glob_disk_example glob_disk_broken)

section \<open>Properties of the converter\<close>

lemma map_of_dirs:
  "map_of (map (\<lambda>q. (q, Dir)) new) p = (if p \<in> set new then Some Dir else None)"
  by (induction new) auto

lemma map_of_append_dirs:
  "map_of (fs @ map (\<lambda>q. (q, Dir)) new) p =
     (case map_of fs p of Some v \<Rightarrow> Some v | None \<Rightarrow> if p \<in> set new then Some Dir else None)"
  by (simp add: map_add_def map_of_dirs split: option.split)

lemma isfile_append_dirs: "isfile (fs @ map (\<lambda>q. (q, Dir)) new) p = isfile fs p"
  by (simp add: isfile_def map_of_append_dirs del: map_of_append split: option.split node.split)

lemma mkdirs_shape:
  "list_all (\<lambda>q. \<not> isfile fs q) qs \<Longrightarrow>
   \<exists>new. mkdirs fs qs = Inr (fs @ map (\<lambda>q. (q, Dir)) new) \<and> set new \<subseteq> set qs \<and>
         (\<forall>q \<in> set qs. map_of (fs @ map (\<lambda>q. (q, Dir)) new) q = Some Dir)"
proof (induction qs arbitrary: fs)
  case Nil
  have "mkdirs fs [] = Inr (fs @ map (\<lambda>q. (q, Dir)) [])" by simp
  then show ?case by fastforce
next
  case (Cons q qs)
  from Cons.prems have nf: "\<not> isfile fs q" and rest: "list_all (\<lambda>q. \<not> isfile fs q) qs"
    by simp_all
  show ?case
  proof (cases "map_of fs q")
    case None
    let ?fs1 = "fs @ map (\<lambda>q. (q, Dir)) [q]"
    have "list_all (\<lambda>q. \<not> isfile ?fs1 q) qs"
      using rest by (simp only: isfile_append_dirs)
    from Cons.IH [OF this] obtain new where
      new: "mkdirs ?fs1 qs = Inr (?fs1 @ map (\<lambda>q. (q, Dir)) new)" "set new \<subseteq> set qs"
        "\<forall>p \<in> set qs. map_of (?fs1 @ map (\<lambda>q. (q, Dir)) new) p = Some Dir"
      by blast
    have eq: "?fs1 @ map (\<lambda>q. (q, Dir)) new = fs @ map (\<lambda>q. (q, Dir)) (q # new)"
      by simp
    have "mkdirs fs (q # qs) = Inr (fs @ map (\<lambda>q. (q, Dir)) (q # new))"
      using None new(1) by simp
    moreover have "set (q # new) \<subseteq> set (q # qs)"
      using new(2) by auto
    moreover have "\<forall>p \<in> set (q # qs). map_of (fs @ map (\<lambda>q. (q, Dir)) (q # new)) p = Some Dir"
    proof
      fix p
      assume p: "p \<in> set (q # qs)"
      show "map_of (fs @ map (\<lambda>q. (q, Dir)) (q # new)) p = Some Dir"
      proof (cases "p = q")
        case True
        then show ?thesis
          using map_of_append_dirs [of fs "q # new" q] None by simp
      next
        case False
        with p have "p \<in> set qs" by simp
        with new(3) show ?thesis unfolding eq by blast
      qed
    qed
    ultimately show ?thesis by blast
  next
    case (Some n)
    with nf have dir: "map_of fs q = Some Dir"
      by (cases n) (simp_all add: isfile_def)
    from Cons.IH [OF rest] obtain new where
      new: "mkdirs fs qs = Inr (fs @ map (\<lambda>q. (q, Dir)) new)" "set new \<subseteq> set qs"
        "\<forall>p \<in> set qs. map_of (fs @ map (\<lambda>q. (q, Dir)) new) p = Some Dir"
      by blast
    have "mkdirs fs (q # qs) = Inr (fs @ map (\<lambda>q. (q, Dir)) new)"
      using dir new(1) by simp
    moreover have "set new \<subseteq> set (q # qs)"
      using new(2) by auto
    moreover have "\<forall>p \<in> set (q # qs). map_of (fs @ map (\<lambda>q. (q, Dir)) new) p = Some Dir"
      using new(3) dir by (auto simp: map_of_append_dirs simp del: map_of_append)
    ultimately show ?thesis by blast
  qed
qed

lemma child_name_suffix: "child_name d q = Some n \<Longrightarrow> suffix n q"
  by (auto simp: child_name_def Let_def suffix_drop split: if_splits)

lemma map_filter_append:
  "List.map_filter f (xs @ ys) = List.map_filter f xs @ List.map_filter f ys"
  by (simp add: List.map_filter_def)

lemma no_entry_glob: "no_entry_ending fs d ext \<Longrightarrow> glob_star fs d ext = []"
  by (auto simp: no_entry_ending_def glob_star_def list_all_iff filter_empty_conv
      split: option.splits)

lemma no_entry_append_dirs:
  assumes "no_entry_ending fs d ext"
    and "\<forall>q \<in> set new. \<not> suffix ext q \<and> q \<noteq> d"
  shows "no_entry_ending (fs @ map (\<lambda>q. (q, Dir)) new) d ext"
proof -
  let ?fs' = "fs @ map (\<lambda>q. (q, Dir)) new"
  have look: "map_of ?fs' d = Some Dir \<longleftrightarrow> map_of fs d = Some Dir"
    using assms(2) by (auto simp: map_of_append_dirs simp del: map_of_append split: option.split)
  have new_names: "\<not> suffix ext n" if "n \<in> set (List.map_filter (child_name d) new)" for n
  proof -
    from that obtain q where q: "q \<in> set new" "child_name d q = Some n"
      by (auto simp: List.map_filter_def)
    from q(2) have "suffix n q" by (rule child_name_suffix)
    with assms(2) q(1) show ?thesis using suffix_order.trans by blast
  qed
  show ?thesis
  proof (cases "map_of fs d = Some Dir")
    case False
    then show ?thesis using look by (simp add: no_entry_ending_def listdir_def)
  next
    case True
    then have old: "list_all (\<lambda>n. \<not> suffix ext n) (List.map_filter (child_name d) (map fst fs))"
      using assms(1) by (simp add: no_entry_ending_def listdir_def)
    have "listdir ?fs' d =
          Some (List.map_filter (child_name d) (map fst fs) @ List.map_filter (child_name d) new)"
      using True look by (auto simp: listdir_def map_filter_append comp_def)
    then show ?thesis
      using old new_names by (auto simp: no_entry_ending_def list_all_iff)
  qed
qed

lemma output_prefixes:
  "folder \<in> set folders \<Longrightarrow>
   dir_prefixes [] (path_join OUTPUT_ROOT folder) = [OUTPUT_ROOT, path_join OUTPUT_ROOT folder]"
  by (auto simp: folders_def OUTPUT_ROOT_def path_join_def)

lemma input_plain:
  "folder \<in> set folders \<Longrightarrow>
   glob g fs (path_join INPUT_ROOT folder) ext = Inr (glob_star fs (path_join INPUT_ROOT folder) ext)"
  by (auto simp: folders_def INPUT_ROOT_def path_join_def glob_def plain_def)

lemma output_not_input:
  "folder \<in> set folders \<Longrightarrow> g \<in> set folders \<Longrightarrow>
   \<forall>q \<in> set [OUTPUT_ROOT, path_join OUTPUT_ROOT folder].
     \<not> suffix ''.xlsx'' q \<and> q \<noteq> path_join INPUT_ROOT g"
  by (auto simp: folders_def OUTPUT_ROOT_def INPUT_ROOT_def path_join_def suffix_def
      append_eq_Cons_conv Cons_eq_append_conv)

text \<open>One turn of the loop on a folder with nothing to convert: the state moves on with
  directories added to the disk and nothing else, and the loop goes on.\<close>

lemma convert_folders_step:
  assumes "folder \<in> set folders"
    and "\<not> isfile (files st) OUTPUT_ROOT"
    and "\<not> isfile (files st) (path_join OUTPUT_ROOT folder)"
    and "no_entry_ending (files st) (path_join INPUT_ROOT folder) ''.xlsx''"
  shows "\<exists>new. set new \<subseteq> {OUTPUT_ROOT, path_join OUTPUT_ROOT folder} \<and>
           makedirs (files st) (path_join OUTPUT_ROOT folder) =
             Inr (files st @ map (\<lambda>q. (q, Dir)) new) \<and>
           map_of (files st @ map (\<lambda>q. (q, Dir)) new) OUTPUT_ROOT = Some Dir \<and>
           map_of (files st @ map (\<lambda>q. (q, Dir)) new) (path_join OUTPUT_ROOT folder) = Some Dir \<and>
           convert_folders os_glob read_excel to_csv (folder # later) st =
             convert_folders os_glob read_excel to_csv later
               (st\<lparr>files := files st @ map (\<lambda>q. (q, Dir)) new\<rparr>)"
proof -
  let ?out = "path_join OUTPUT_ROOT folder"
  have "list_all (\<lambda>q. \<not> isfile (files st) q) (dir_prefixes [] ?out)"
    using assms(1-3) by (simp add: output_prefixes)
  from mkdirs_shape [OF this] obtain new where
    new: "mkdirs (files st) (dir_prefixes [] ?out) = Inr (files st @ map (\<lambda>q. (q, Dir)) new)"
      "set new \<subseteq> set (dir_prefixes [] ?out)"
      "\<forall>q \<in> set (dir_prefixes [] ?out). map_of (files st @ map (\<lambda>q. (q, Dir)) new) q = Some Dir"
    by blast
  let ?fs' = "files st @ map (\<lambda>q. (q, Dir)) new"
  have sub: "set new \<subseteq> {OUTPUT_ROOT, ?out}"
    using new(2) by (simp add: output_prefixes [OF assms(1)])
  have mk: "makedirs (files st) ?out = Inr ?fs'"
    using new(1) by (simp add: makedirs_def)
  have dirs: "map_of ?fs' OUTPUT_ROOT = Some Dir" "map_of ?fs' ?out = Some Dir"
    using new(3) by (simp_all add: output_prefixes [OF assms(1)])
  have "\<forall>q \<in> set new. \<not> suffix ''.xlsx'' q \<and> q \<noteq> path_join INPUT_ROOT folder"
    using sub output_not_input [OF assms(1) assms(1)] by auto
  from no_entry_glob [OF no_entry_append_dirs [OF assms(4) this]]
  have "glob_star ?fs' (path_join INPUT_ROOT folder) ''.xlsx'' = []" .
  then have "convert_folders os_glob read_excel to_csv (folder # later) st =
             convert_folders os_glob read_excel to_csv later (st\<lparr>files := ?fs'\<rparr>)"
    using mk by (simp add: Let_def input_plain [OF assms(1)])
  with sub mk dirs show ?thesis by blast
qed

lemma files_append_dirs:
  "(map_of (fs @ map (\<lambda>q. (q, Dir)) new) p = Some (File bytes)) = (map_of fs p = Some (File bytes))"
  by (simp add: map_of_append_dirs del: map_of_append split: option.split)

lemma convert_folders_all:
  assumes "set fl \<subseteq> set folders"
    and "\<not> isfile (files st) OUTPUT_ROOT"
    and "\<forall>f \<in> set fl. \<not> isfile (files st) (path_join OUTPUT_ROOT f) \<and>
           no_entry_ending (files st) (path_join INPUT_ROOT f) ''.xlsx''"
  shows "\<exists>new. convert_folders os_glob read_excel to_csv fl st =
                 Inr (st\<lparr>files := files st @ map (\<lambda>q. (q, Dir)) new\<rparr>) \<and>
               (\<forall>f \<in> set fl.
                  map_of (files st @ map (\<lambda>q. (q, Dir)) new) (path_join OUTPUT_ROOT f) = Some Dir)"
  using assms
proof (induction fl arbitrary: st)
  case Nil
  have "convert_folders os_glob read_excel to_csv [] st =
        Inr (st\<lparr>files := files st @ map (\<lambda>q. (q, Dir)) []\<rparr>)" by simp
  then show ?case by fastforce
next
  case (Cons f fl)
  from Cons.prems have f: "f \<in> set folders" and fl: "set fl \<subseteq> set folders"
    by simp_all
  from Cons.prems(3) have pre:
    "\<not> isfile (files st) (path_join OUTPUT_ROOT f)"
    "no_entry_ending (files st) (path_join INPUT_ROOT f) ''.xlsx''"
    by simp_all
  from convert_folders_step [OF f Cons.prems(2) pre, of os_glob read_excel to_csv fl]
  obtain new1 where
    new1: "set new1 \<subseteq> {OUTPUT_ROOT, path_join OUTPUT_ROOT f}"
      "map_of (files st @ map (\<lambda>q. (q, Dir)) new1) (path_join OUTPUT_ROOT f) = Some Dir"
      "convert_folders os_glob read_excel to_csv (f # fl) st =
         convert_folders os_glob read_excel to_csv fl (st\<lparr>files := files st @ map (\<lambda>q. (q, Dir)) new1\<rparr>)"
    by blast
  let ?st1 = "st\<lparr>files := files st @ map (\<lambda>q. (q, Dir)) new1\<rparr>"
  have root: "\<not> isfile (files ?st1) OUTPUT_ROOT"
    using Cons.prems(2) by (simp add: isfile_append_dirs)
  have rest: "\<forall>g \<in> set fl. \<not> isfile (files ?st1) (path_join OUTPUT_ROOT g) \<and>
           no_entry_ending (files ?st1) (path_join INPUT_ROOT g) ''.xlsx''"
  proof
    fix g
    assume g: "g \<in> set fl"
    with fl have gf: "g \<in> set folders" by blast
    from g Cons.prems(3) have old:
      "\<not> isfile (files st) (path_join OUTPUT_ROOT g)"
      "no_entry_ending (files st) (path_join INPUT_ROOT g) ''.xlsx''"
      by simp_all
    have "\<forall>q \<in> set new1. \<not> suffix ''.xlsx'' q \<and> q \<noteq> path_join INPUT_ROOT g"
      using new1(1) output_not_input [OF f gf] by auto
    from no_entry_append_dirs [OF old(2) this] old(1)
    show "\<not> isfile (files ?st1) (path_join OUTPUT_ROOT g) \<and>
           no_entry_ending (files ?st1) (path_join INPUT_ROOT g) ''.xlsx''"
      by (simp add: isfile_append_dirs)
  qed
  from Cons.IH [OF fl root rest] obtain new2 where
    new2: "convert_folders os_glob read_excel to_csv fl ?st1 =
             Inr (?st1\<lparr>files := files ?st1 @ map (\<lambda>q. (q, Dir)) new2\<rparr>)"
      "\<forall>g \<in> set fl.
         map_of (files ?st1 @ map (\<lambda>q. (q, Dir)) new2) (path_join OUTPUT_ROOT g) = Some Dir"
    by blast
  have app: "files ?st1 @ map (\<lambda>q. (q, Dir)) new2 = files st @ map (\<lambda>q. (q, Dir)) (new1 @ new2)"
    by simp
  have run: "convert_folders os_glob read_excel to_csv (f # fl) st =
        Inr (st\<lparr>files := files st @ map (\<lambda>q. (q, Dir)) (new1 @ new2)\<rparr>)"
    using new1(3) new2(1) by simp
  have "map_of (files st @ map (\<lambda>q. (q, Dir)) (new1 @ new2)) (path_join OUTPUT_ROOT f) = Some Dir"
    using new1(2) map_of_append_dirs [of "files st @ map (\<lambda>q. (q, Dir)) new1" new2 "path_join OUTPUT_ROOT f"]
    by simp
  moreover have "\<forall>g \<in> set fl.
     map_of (files st @ map (\<lambda>q. (q, Dir)) (new1 @ new2)) (path_join OUTPUT_ROOT g) = Some Dir"
    using new2(2) unfolding app .
  ultimately have "\<forall>g \<in> set (f # fl).
     map_of (files st @ map (\<lambda>q. (q, Dir)) (new1 @ new2)) (path_join OUTPUT_ROOT g) = Some Dir"
    by simp
  with run show ?case by blast
qed

lemma converter_all:
  assumes "\<not> isfile fs OUTPUT_ROOT"
    and "\<forall>f \<in> set folders. \<not> isfile fs (path_join OUTPUT_ROOT f) \<and>
           no_entry_ending fs (path_join INPUT_ROOT f) ''.xlsx''"
  shows "\<exists>new. converter os_glob read_excel to_csv fs =
                 Inr \<lparr>files = fs @ map (\<lambda>q. (q, Dir)) new,
                      stdout = [''All Excel files converted to CSV'']\<rparr> \<and>
               (\<forall>f \<in> set folders.
                  map_of (fs @ map (\<lambda>q. (q, Dir)) new) (path_join OUTPUT_ROOT f) = Some Dir)"
proof -
  have pre: "dir_prefixes [] OUTPUT_ROOT = [OUTPUT_ROOT]"
    by (simp add: OUTPUT_ROOT_def)
  have "list_all (\<lambda>q. \<not> isfile fs q) (dir_prefixes [] OUTPUT_ROOT)"
    using assms(1) by (simp add: pre)
  from mkdirs_shape [OF this] obtain new0 where
    new0: "mkdirs fs (dir_prefixes [] OUTPUT_ROOT) = Inr (fs @ map (\<lambda>q. (q, Dir)) new0)"
      "set new0 \<subseteq> {OUTPUT_ROOT}"
    unfolding pre by auto
  let ?st0 = "\<lparr>files = fs @ map (\<lambda>q. (q, Dir)) new0, stdout = []\<rparr>"
  have root: "\<not> isfile (files ?st0) OUTPUT_ROOT"
    using assms(1) by (simp add: isfile_append_dirs)
  have rest: "\<forall>g \<in> set folders. \<not> isfile (files ?st0) (path_join OUTPUT_ROOT g) \<and>
           no_entry_ending (files ?st0) (path_join INPUT_ROOT g) ''.xlsx''"
  proof
    fix g
    assume g: "g \<in> set folders"
    with assms(2) have old:
      "\<not> isfile fs (path_join OUTPUT_ROOT g)"
      "no_entry_ending fs (path_join INPUT_ROOT g) ''.xlsx''"
      by simp_all
    have "\<forall>q \<in> set new0. \<not> suffix ''.xlsx'' q \<and> q \<noteq> path_join INPUT_ROOT g"
      using new0(2) output_not_input [OF g g] by auto
    from no_entry_append_dirs [OF old(2) this] old(1)
    show "\<not> isfile (files ?st0) (path_join OUTPUT_ROOT g) \<and>
           no_entry_ending (files ?st0) (path_join INPUT_ROOT g) ''.xlsx''"
      by (simp add: isfile_append_dirs)
  qed
  from convert_folders_all [OF subset_refl root rest, of os_glob read_excel to_csv] obtain new where
    new: "convert_folders os_glob read_excel to_csv folders ?st0 =
            Inr (?st0\<lparr>files := files ?st0 @ map (\<lambda>q. (q, Dir)) new\<rparr>)"
      "\<forall>f \<in> set folders.
         map_of (files ?st0 @ map (\<lambda>q. (q, Dir)) new) (path_join OUTPUT_ROOT f) = Some Dir"
    by blast
  have "converter os_glob read_excel to_csv fs =
        Inr \<lparr>files = fs @ map (\<lambda>q. (q, Dir)) (new0 @ new),
             stdout = [''All Excel files converted to CSV'']\<rparr>"
    using new0(1) new(1) by (simp add: converter_def makedirs_def)
  moreover have "\<forall>f \<in> set folders.
      map_of (fs @ map (\<lambda>q. (q, Dir)) (new0 @ new)) (path_join OUTPUT_ROOT f) = Some Dir"
    using new(2) by simp
  ultimately show ?thesis by blast
qed

text \<open>
  C10 (amended). Take a subfolder name of the script's list whose input subfolder cannot
  be listed or has no entry ending in ".xlsx". When the loop reaches it with no file in
  the way of the output root and of the mirrored output subfolder, that turn of the loop
  makes the mirrored output subfolder a directory, changes no file of the disk, prints
  nothing and raises nothing, and the run goes on with the next subfolder from there.
  And when the same holds of all three subfolders on the disk the script starts on, the
  whole run completes: it returns normally, the three output subfolders are directories,
  no file of the disk has changed, and the only line printed is the last one.
\<close>

theorem convert_folders_nothing_to_convert:
  "(folder \<in> set folders \<and>
    \<not> isfile (files st) OUTPUT_ROOT \<and>
    \<not> isfile (files st) (path_join OUTPUT_ROOT folder) \<and>
    no_entry_ending (files st) (path_join INPUT_ROOT folder) ''.xlsx'' \<longrightarrow>
    (\<exists>fs'. makedirs (files st) (path_join OUTPUT_ROOT folder) = Inr fs' \<and>
       map_of fs' (path_join OUTPUT_ROOT folder) = Some Dir \<and>
       (\<forall>p bytes. (map_of fs' p = Some (File bytes)) = (map_of (files st) p = Some (File bytes))) \<and>
       convert_folders os_glob read_excel to_csv (folder # later) st =
         convert_folders os_glob read_excel to_csv later (st\<lparr>files := fs'\<rparr>))) \<and>
   (\<not> isfile fs OUTPUT_ROOT \<and>
    (\<forall>f \<in> set folders. \<not> isfile fs (path_join OUTPUT_ROOT f) \<and>
       no_entry_ending fs (path_join INPUT_ROOT f) ''.xlsx'') \<longrightarrow>
    (\<exists>fs'. converter os_glob read_excel to_csv fs =
         Inr \<lparr>files = fs', stdout = [''All Excel files converted to CSV'']\<rparr> \<and>
       (\<forall>f \<in> set folders. map_of fs' (path_join OUTPUT_ROOT f) = Some Dir) \<and>
       (\<forall>p bytes. (map_of fs' p = Some (File bytes)) = (map_of fs p = Some (File bytes)))))"
proof (intro conjI impI)
  assume a: "folder \<in> set folders \<and>
    \<not> isfile (files st) OUTPUT_ROOT \<and>
    \<not> isfile (files st) (path_join OUTPUT_ROOT folder) \<and>
    no_entry_ending (files st) (path_join INPUT_ROOT folder) ''.xlsx''"
  from a convert_folders_step [of folder st os_glob read_excel to_csv later] obtain new where
    "makedirs (files st) (path_join OUTPUT_ROOT folder) = Inr (files st @ map (\<lambda>q. (q, Dir)) new)"
    "map_of (files st @ map (\<lambda>q. (q, Dir)) new) (path_join OUTPUT_ROOT folder) = Some Dir"
    "convert_folders os_glob read_excel to_csv (folder # later) st =
       convert_folders os_glob read_excel to_csv later (st\<lparr>files := files st @ map (\<lambda>q. (q, Dir)) new\<rparr>)"
    by blast
  then show "\<exists>fs'. makedirs (files st) (path_join OUTPUT_ROOT folder) = Inr fs' \<and>
       map_of fs' (path_join OUTPUT_ROOT folder) = Some Dir \<and>
       (\<forall>p bytes. (map_of fs' p = Some (File bytes)) = (map_of (files st) p = Some (File bytes))) \<and>
       convert_folders os_glob read_excel to_csv (folder # later) st =
         convert_folders os_glob read_excel to_csv later (st\<lparr>files := fs'\<rparr>)"
    using files_append_dirs [of "files st" new] by blast
next
  assume b: "\<not> isfile fs OUTPUT_ROOT \<and>
    (\<forall>f \<in> set folders. \<not> isfile fs (path_join OUTPUT_ROOT f) \<and>
       no_entry_ending fs (path_join INPUT_ROOT f) ''.xlsx'')"
  from b converter_all [of fs os_glob read_excel to_csv] obtain new where
    "converter os_glob read_excel to_csv fs =
       Inr \<lparr>files = fs @ map (\<lambda>q. (q, Dir)) new,
            stdout = [''All Excel files converted to CSV'']\<rparr>"
    "\<forall>f \<in> set folders.
       map_of (fs @ map (\<lambda>q. (q, Dir)) new) (path_join OUTPUT_ROOT f) = Some Dir"
    by blast
  then show "\<exists>fs'. converter os_glob read_excel to_csv fs =
         Inr \<lparr>files = fs', stdout = [''All Excel files converted to CSV'']\<rparr> \<and>
       (\<forall>f \<in> set folders. map_of fs' (path_join OUTPUT_ROOT f) = Some Dir) \<and>
       (\<forall>p bytes. (map_of fs' p = Some (File bytes)) = (map_of fs p = Some (File bytes)))"
    using files_append_dirs [of fs new] by blast
qed

lemma no_entry_disk_reports:
  "no_entry_ending disk_reports (path_join INPUT_ROOT ''api_data_aadhar_enrolment'') ''.xlsx''"
  unfolding disk_reports_def no_entry_ending_def by code_simp

lemma makedirs_disk_reports:
  "makedirs disk_reports (path_join OUTPUT_ROOT ''api_data_aadhar_enrolment'') =
     Inr (disk_reports @ [(''data_csv_converted/api_data_aadhar_enrolment'', Dir)])"
  unfolding disk_reports_def by code_simp

lemma isfile_disk_reports:
  "\<not> isfile disk_reports OUTPUT_ROOT"
  "\<not> isfile disk_reports (path_join OUTPUT_ROOT ''api_data_aadhar_enrolment'')"
  unfolding disk_reports_def by code_simp+

lemma converter_empty_disk:
  "converter (\<lambda>fs p ext. []) (\<lambda>bytes. Inl ''File is not a zip file'') (\<lambda>df. []) [] =
     Inr \<lparr>files = [(''data_csv_converted'', Dir),
                   (''data_csv_converted/api_data_aadhar_enrolment'', Dir),
                   (''data_csv_converted/api_data_aadhar_demographic'', Dir),
                   (''data_csv_converted/api_data_aadhar_biometric'', Dir)],
          stdout = [''All Excel files converted to CSV'']\<rparr>"
  by code_simp

text \<open>On the first example disk the turn for the enrolment folder adds the output
  subfolder and nothing else; on an empty disk the run makes the four directories and
  ends with its last line.\<close>

theorem convert_folders_nothing_to_convert_witness:
  "''api_data_aadhar_enrolment'' \<in> set folders \<and>
   \<not> isfile disk_reports OUTPUT_ROOT \<and>
   \<not> isfile disk_reports (path_join OUTPUT_ROOT ''api_data_aadhar_enrolment'') \<and>
   no_entry_ending disk_reports (path_join INPUT_ROOT ''api_data_aadhar_enrolment'') ''.xlsx'' \<and>
   convert_folders (\<lambda>fs p ext. []) (\<lambda>bytes. Inl ''File is not a zip file'') (\<lambda>df. [])
     [''api_data_aadhar_enrolment''] \<lparr>files = disk_reports, stdout = []\<rparr> =
   Inr \<lparr>files = disk_reports @ [(''data_csv_converted/api_data_aadhar_enrolment'', Dir)],
        stdout = []\<rparr> \<and>
   converter (\<lambda>fs p ext. []) (\<lambda>bytes. Inl ''File is not a zip file'') (\<lambda>df. []) [] =
     Inr \<lparr>files = [(''data_csv_converted'', Dir),
                   (''data_csv_converted/api_data_aadhar_enrolment'', Dir),
                   (''data_csv_converted/api_data_aadhar_demographic'', Dir),
                   (''data_csv_converted/api_data_aadhar_biometric'', Dir)],
          stdout = [''All Excel files converted to CSV'']\<rparr>"
proof -
  let ?st = "\<lparr>files = disk_reports, stdout = []\<rparr>"
  let ?rx = "\<lambda>bytes::string. Inl ''File is not a zip file'' :: string + dataframe"
  let ?tc = "\<lambda>df::dataframe. [] :: string"
  let ?g = "\<lambda>(fs::filesystem) (p::path) (ext::string). [] :: path list"
  have a: "''api_data_aadhar_enrolment'' \<in> set folders"
    by (simp add: folders_def)
  have h: "''api_data_aadhar_enrolment'' \<in> set folders \<and>
      \<not> isfile (files ?st) OUTPUT_ROOT \<and>
      \<not> isfile (files ?st) (path_join OUTPUT_ROOT ''api_data_aadhar_enrolment'') \<and>
      no_entry_ending (files ?st) (path_join INPUT_ROOT ''api_data_aadhar_enrolment'') ''.xlsx''"
    using a isfile_disk_reports no_entry_disk_reports by simp
  from convert_folders_nothing_to_convert
    [of "''api_data_aadhar_enrolment''" ?st ?g ?rx ?tc "[]", THEN conjunct1, THEN mp, OF h]
  obtain fs' where
    fs': "makedirs (files ?st) (path_join OUTPUT_ROOT ''api_data_aadhar_enrolment'') = Inr fs'"
      "convert_folders ?g ?rx ?tc [''api_data_aadhar_enrolment''] ?st =
         convert_folders ?g ?rx ?tc [] (?st\<lparr>files := fs'\<rparr>)"
    by blast
  from fs'(1) have "fs' = disk_reports @ [(''data_csv_converted/api_data_aadhar_enrolment'', Dir)]"
    by (simp add: makedirs_disk_reports)
  with fs'(2) have "convert_folders ?g ?rx ?tc [''api_data_aadhar_enrolment''] ?st =
      Inr \<lparr>files = disk_reports @ [(''data_csv_converted/api_data_aadhar_enrolment'', Dir)],
           stdout = []\<rparr>"
    by simp
  with a isfile_disk_reports no_entry_disk_reports converter_empty_disk show ?thesis
    by blast
qed

text \<open>
  C10 as stated fails. On the second example disk the demographic input folder does not
  exist, yet the run does not complete and the demographic output subfolder is never
  made: reading the enrolment spreadsheet raises first, and the script catches nothing.
  And on a disk where the output root is a file, \<^verbatim>\<open>os.makedirs\<close> on line 8 raises
  before any folder is looked at, although no input folder exists.
\<close>

theorem convert_folders_nothing_to_convert_counterexample:
  "no_entry_ending disk_bad_sheet (path_join INPUT_ROOT ''api_data_aadhar_demographic'') ''.xlsx'' \<and>
   converter (\<lambda>fs p ext. []) (\<lambda>bytes. Inl ''File is not a zip file'') (\<lambda>df. []) disk_bad_sheet =
     Inl (ReadError ''File is not a zip file'',
          \<lparr>files = disk_bad_sheet @
                    [(''data_csv_converted'', Dir),
                     (''data_csv_converted/api_data_aadhar_enrolment'', Dir)],
           stdout = []\<rparr>) \<and>
   converter (\<lambda>fs p ext. []) (\<lambda>bytes. Inl ''File is not a zip file'') (\<lambda>df. [])
       [(''data_csv_converted'', File [])] =
     Inl (OSError ''[Errno 17] File exists: data_csv_converted'',
          \<lparr>files = [(''data_csv_converted'', File [])], stdout = []\<rparr>)"
  unfolding disk_bad_sheet_def no_entry_ending_def by code_simp

section \<open>Properties of the round trip\<close>













































end
